theory Spec2Isabelle
  imports Complex_Main
begin

section \<open>JavaScript numbers\<close>

text \<open>
  The limiter of \<^verbatim>\<open>src/lib/winston-slack-webhook.js\<close> computes with JavaScript numbers,
  which are IEEE 754 doubles. A number is modelled as a finite value or one of the three
  special values \<^verbatim>\<open>Infinity\<close>, \<^verbatim>\<open>-Infinity\<close> and \<^verbatim>\<open>NaN\<close>. A finite value is held as the real
  number it denotes, and every arithmetic operation rounds its exact result to the nearest
  double, as the hardware does. There is a single zero, read as \<^verbatim>\<open>+0\<close>.
\<close>

datatype jsnum = Fin real | PInf | NInf | NaN

text \<open>Rounding a real number to the nearest integer, a tie going to the even one.\<close>

definition round_half_even :: "real \<Rightarrow> int" where
  "round_half_even y =
     (let f = \<lfloor>y\<rfloor>; d = y - of_int f
      in if d < 1 / 2 then f else if 1 / 2 < d then f + 1 else if even f then f else f + 1)"

text \<open>
  Rounding a real number to a double (round to nearest, ties to even): the doubles around
  \<open>x\<close> are the multiples of \<open>2 powi e\<close>, where \<open>e\<close> is 52 below the binary exponent of
  \<open>x\<close> and never below \<open>-1074\<close> (the subnormal range); a result of magnitude
  \<open>2 powi 1024\<close> or more overflows to an infinity.
\<close>

definition rnd :: "real \<Rightarrow> jsnum" where
  "rnd x =
     (let e = (if \<bar>x\<bar> < 2 powi (- 1022) then - 1074 else \<lfloor>log 2 \<bar>x\<bar>\<rfloor> - 52);
          y = of_int (round_half_even (x / 2 powi e)) * 2 powi e
      in if 2 powi 1024 \<le> \<bar>y\<bar> then (if 0 < x then PInf else NInf) else Fin y)"

text \<open>\<^verbatim>\<open>a * b\<close>\<close>

fun js_mul :: "jsnum \<Rightarrow> jsnum \<Rightarrow> jsnum" where
  "js_mul NaN y = NaN"
| "js_mul x NaN = NaN"
| "js_mul (Fin a) (Fin b) = rnd (a * b)"
| "js_mul (Fin a) PInf = (if a = 0 then NaN else if 0 < a then PInf else NInf)"
| "js_mul (Fin a) NInf = (if a = 0 then NaN else if 0 < a then NInf else PInf)"
| "js_mul PInf (Fin b) = (if b = 0 then NaN else if 0 < b then PInf else NInf)"
| "js_mul NInf (Fin b) = (if b = 0 then NaN else if 0 < b then NInf else PInf)"
| "js_mul PInf PInf = PInf"
| "js_mul PInf NInf = NInf"
| "js_mul NInf PInf = NInf"
| "js_mul NInf NInf = PInf"

text \<open>\<^verbatim>\<open>a + b\<close>\<close>

fun js_add :: "jsnum \<Rightarrow> jsnum \<Rightarrow> jsnum" where
  "js_add NaN y = NaN"
| "js_add x NaN = NaN"
| "js_add (Fin a) (Fin b) = rnd (a + b)"
| "js_add PInf NInf = NaN"
| "js_add NInf PInf = NaN"
| "js_add PInf y = PInf"
| "js_add NInf y = NInf"
| "js_add (Fin a) y = y"

text \<open>\<^verbatim>\<open>-a\<close>\<close>

fun js_neg :: "jsnum \<Rightarrow> jsnum" where
  "js_neg (Fin a) = Fin (- a)"
| "js_neg PInf = NInf"
| "js_neg NInf = PInf"
| "js_neg NaN = NaN"

text \<open>\<^verbatim>\<open>a - b\<close>\<close>

definition js_sub :: "jsnum \<Rightarrow> jsnum \<Rightarrow> jsnum" where
  "js_sub x y = js_add x (js_neg y)"

text \<open>\<^verbatim>\<open>a / b\<close>; a zero divisor is \<^verbatim>\<open>+0\<close>.\<close>

fun js_div :: "jsnum \<Rightarrow> jsnum \<Rightarrow> jsnum" where
  "js_div NaN y = NaN"
| "js_div x NaN = NaN"
| "js_div (Fin a) (Fin b) =
     (if b = 0 then (if a = 0 then NaN else if 0 < a then PInf else NInf) else rnd (a / b))"
| "js_div (Fin a) y = Fin 0"
| "js_div PInf (Fin b) = (if 0 \<le> b then PInf else NInf)"
| "js_div NInf (Fin b) = (if 0 \<le> b then NInf else PInf)"
| "js_div x y = NaN"

text \<open>
  \<^verbatim>\<open>Math.log(a)\<close> and \<^verbatim>\<open>Math.exp(a)\<close>. The language fixes their values at the special
  arguments and leaves the rest to the engine, which returns some double near the exact
  value; that part is the engine's function, given as the first argument.
\<close>

fun js_log :: "(real \<Rightarrow> jsnum) \<Rightarrow> jsnum \<Rightarrow> jsnum" where
  "js_log engine_log (Fin a) =
     (if a < 0 then NaN else if a = 0 then NInf else if a = 1 then Fin 0 else engine_log a)"
| "js_log engine_log PInf = PInf"
| "js_log engine_log NInf = NaN"
| "js_log engine_log NaN = NaN"

fun js_exp :: "(real \<Rightarrow> jsnum) \<Rightarrow> jsnum \<Rightarrow> jsnum" where
  "js_exp engine_exp (Fin a) = (if a = 0 then Fin 1 else engine_exp a)"
| "js_exp engine_exp PInf = PInf"
| "js_exp engine_exp NInf = Fin 0"
| "js_exp engine_exp NaN = NaN"

text \<open>\<^verbatim>\<open>a > b\<close>: false as soon as one side is \<^verbatim>\<open>NaN\<close>.\<close>

fun js_gt :: "jsnum \<Rightarrow> jsnum \<Rightarrow> bool" where
  "js_gt NaN y = False"
| "js_gt x NaN = False"
| "js_gt (Fin a) (Fin b) = (b < a)"
| "js_gt PInf PInf = False"
| "js_gt PInf y = True"
| "js_gt x PInf = False"
| "js_gt NInf y = False"
| "js_gt (Fin a) NInf = True"

text \<open>
  \<^verbatim>\<open>x || d\<close> for an option that holds a number: \<^verbatim>\<open>undefined\<close> (\<open>None\<close>), \<^verbatim>\<open>0\<close> and \<^verbatim>\<open>NaN\<close>
  are falsy and give the default.
\<close>

fun num_or :: "jsnum option \<Rightarrow> jsnum \<Rightarrow> jsnum" where
  "num_or None d = d"
| "num_or (Some NaN) d = d"
| "num_or (Some (Fin a)) d = (if a = 0 then d else Fin a)"
| "num_or (Some x) d = x"

text \<open>\<^verbatim>\<open>x || d\<close> for an option that holds a string: \<^verbatim>\<open>undefined\<close> and \<^verbatim>\<open>''\<close> are falsy.\<close>

fun str_or :: "string option \<Rightarrow> string \<Rightarrow> string" where
  "str_or None d = d"
| "str_or (Some x) d = (if x = [] then d else x)"

text \<open>The decimal text of a non-negative integer, as string concatenation renders it.\<close>

fun string_of_nat :: "nat \<Rightarrow> string" where
  "string_of_nat n =
     (if n < 10 then [char_of (48 + n)]
      else string_of_nat (n div 10) @ [char_of (48 + n mod 10)])"

declare string_of_nat.simps [simp del]

section \<open>Data model\<close>

text \<open>
  The metadata argument of \<^verbatim>\<open>log\<close>: \<^verbatim>\<open>undefined\<close>, \<^verbatim>\<open>null\<close>, or an object. An object is given
  by the list of its enumerable properties in the order \<^verbatim>\<open>for ... in\<close> visits them, each
  with its key, whether it is an own property or an inherited one, and what it holds; and
  by what the name \<^verbatim>\<open>hasOwnProperty\<close> resolves to on the object when none of these
  properties has that name: the built-in method of \<^verbatim>\<open>Object.prototype\<close> (an ordinary
  object), nothing that can be called (an object without that prototype), or some other
  function, given by what a call of it with a key returns (as a truth value) or throws.
  What a property holds is opaque: the program only reads it and hands it to
  \<^verbatim>\<open>util.inspect\<close>.
\<close>

datatype 'v property = Prop (prop_key: string) (prop_own: bool) (prop_value: 'v)

text \<open>The exceptions a call can end with: a \<^verbatim>\<open>TypeError\<close>, or any other thrown value.\<close>

datatype js_error = TypeError | Exception string

datatype has_own = Builtin | Missing | Custom "string \<Rightarrow> js_error + bool"

datatype 'v jsmeta = Undefined | Null | Object "'v property list" has_own

text \<open>An ordinary object.\<close>

abbreviation Obj :: "'v property list \<Rightarrow> 'v jsmeta" where
  "Obj ps \<equiv> Object ps Builtin"

text \<open>
  The completion callback of a send: the module's \<^verbatim>\<open>noop\<close>, or the function the caller
  of \<^verbatim>\<open>log\<close> passed, which the program never inspects.
\<close>

datatype 'c completion = Noop | Caller 'c

text \<open>How a call ends.\<close>

datatype returned = Returned | Threw js_error

text \<open>The argument of the constructor; \<open>None\<close> is a property that is \<^verbatim>\<open>undefined\<close>.\<close>

record 'v options =
  opt_name :: "string option"
  opt_level :: "string option"
  opt_formatter :: "(string \<Rightarrow> string \<Rightarrow> 'v jsmeta \<Rightarrow> string) option"
  opt_webhookUrl :: "string option"
  opt_channel :: "string option"
  opt_username :: "string option"
  opt_iconEmoji :: "string option"
  opt_iconUrl :: "string option"
  opt_unfurlLinks :: "bool option"
  opt_limitPerSecond :: "jsnum option"
  opt_limitWindowSeconds :: "jsnum option"

text \<open>What \<^verbatim>\<open>url.parse\<close> returns, as far as the constructor reads it; \<open>None\<close> is \<^verbatim>\<open>null\<close>.\<close>

record parsed_url =
  url_hostname :: "string option"
  url_port :: "string option"
  url_path :: "string option"

datatype port = PortString string | PortNumber nat

text \<open>
  The fields of a \<^verbatim>\<open>SlackWebHook\<close> object. \<open>formatter\<close> is \<open>Some f\<close> when the field holds a
  function and \<open>None\<close> otherwise (\<^verbatim>\<open>null\<close>); a formatter is taken to return a string
  without throwing. \<open>limitLastUpdate\<close> is a \<^verbatim>\<open>Date\<close>, held as its time value, an integral
  number of milliseconds.
\<close>

record 'v sink =
  name :: string
  level :: string
  formatter :: "(string \<Rightarrow> string \<Rightarrow> 'v jsmeta \<Rightarrow> string) option"
  webhookUrl :: string
  channel :: string
  username :: string
  iconEmoji :: string
  iconUrl :: string
  unfurlLinks :: bool
  limitPerSecond :: jsnum
  limitWindowSeconds :: jsnum
  host :: "string option"
  port :: port
  path :: "string option"
  limitLambda :: jsnum
  limitSent :: jsnum
  limitLastUpdate :: int
  limitNumDiscarded :: nat

record attachment =
  fallback :: string
  a_text :: string
  color :: string

text \<open>The payload object; \<open>attachments = None\<close> is a payload without that property.\<close>

record payload =
  p_text :: string
  p_channel :: string
  p_username :: string
  icon_emoji :: string
  icon_url :: string
  unfurl_links :: bool
  attachments :: "attachment list option"

text \<open>
  A call of \<^verbatim>\<open>https.request\<close> followed by \<^verbatim>\<open>req.write(data)\<close> and \<^verbatim>\<open>req.end()\<close>. The request
  is kept with the payload object it carries: \<^verbatim>\<open>JSON.stringify\<close> and the
  \<^verbatim>\<open>Content-Length\<close> computed from its result belong to the runtime, and these calls
  are taken to accept a payload of strings. \<open>on_response\<close> is the
  callback that the response listener of the request closes over; the program attaches no
  other listener to the request.
\<close>

record 'c request =
  req_host :: "string option"
  req_port :: port
  req_path :: "string option"
  req_method :: string
  req_content_type :: string
  req_data :: payload
  on_response :: "'c completion"

text \<open>
  What the program does to the outside, in program order: the requests it issues, and
  (as a record of the calls, for the claims that count them) each run of
  \<^verbatim>\<open>incrementLimitSent\<close>.
\<close>

datatype 'c event = HttpsRequest "'c request" | LimitSentIncremented

text \<open>
  The runtime the program calls into.
  \<^item> \<open>inspect v\<close> is \<^verbatim>\<open>util.inspect(meta[key])\<close> for a property that holds \<open>v\<close>: the
    rendering, or the exception when reading the property or rendering it throws.
  \<^item> \<open>as_function v\<close> is \<open>Some f\<close> when \<open>v\<close> is a function, \<open>f key\<close> being what a call of it
    with a key returns (as a truth value) or throws.
  \<^item> \<open>url_parse\<close> is \<^verbatim>\<open>url.parse\<close>.
  \<^item> \<open>clock n\<close> is the time value of the \<open>n\<close>-th \<^verbatim>\<open>new Date()\<close> of the run.
  \<^item> \<open>math_log\<close> and \<open>math_exp\<close> are the engine's \<^verbatim>\<open>Math.log\<close> and \<^verbatim>\<open>Math.exp\<close> away from
    the special arguments.
\<close>

record 'v node =
  inspect :: "'v \<Rightarrow> js_error + string"
  as_function :: "'v \<Rightarrow> (string \<Rightarrow> js_error + bool) option"
  url_parse :: "string \<Rightarrow> parsed_url"
  clock :: "nat \<Rightarrow> int"
  math_log :: "real \<Rightarrow> jsnum"
  math_exp :: "real \<Rightarrow> jsnum"

text \<open>
  The state a method runs in: the object \<^verbatim>\<open>this\<close>, the number of clock readings made so
  far, and the events so far.
\<close>

record ('v, 'c) machine =
  self :: "'v sink"
  ticks :: nat
  trace :: "'c event list"

section \<open>The transport\<close>

text \<open>\<^verbatim>\<open>new Date()\<close>\<close>

definition new_Date :: "'v node \<Rightarrow> ('v, 'c) machine \<Rightarrow> int \<times> ('v, 'c) machine" where
  "new_Date rt m = (clock rt (ticks m), m\<lparr>ticks := Suc (ticks m)\<rparr>)"

text \<open>\<^verbatim>\<open>parsedUrl.port || 443\<close>\<close>

fun port_or :: "string option \<Rightarrow> nat \<Rightarrow> port" where
  "port_or None d = PortNumber d"
| "port_or (Some x) d = (if x = [] then PortNumber d else PortString x)"

text \<open>
  The constructor (lines 10-39). \<open>None\<close> for the argument is a call without options
  (\<^verbatim>\<open>options = options || {}\<close>). The object starts with an empty trace.
\<close>

definition no_options :: "'v options" where
  "no_options = \<lparr>opt_name = None, opt_level = None, opt_formatter = None,
     opt_webhookUrl = None, opt_channel = None, opt_username = None, opt_iconEmoji = None,
     opt_iconUrl = None, opt_unfurlLinks = None, opt_limitPerSecond = None,
     opt_limitWindowSeconds = None\<rparr>"

definition SlackWebHook :: "'v node \<Rightarrow> 'v options option \<Rightarrow> nat \<Rightarrow> ('v, 'c) machine" where
  "SlackWebHook rt options0 n =
     (let options = (case options0 of None \<Rightarrow> no_options | Some opts \<Rightarrow> opts);
          the_webhookUrl = str_or (opt_webhookUrl options) [];
          the_limitPerSecond = num_or (opt_limitPerSecond options) PInf;
          the_limitWindowSeconds = num_or (opt_limitWindowSeconds options) (Fin 30);
          parsedUrl = url_parse rt the_webhookUrl
      in \<lparr>self = \<lparr>
            name = str_or (opt_name options) ''slackWebHook'',
            level = str_or (opt_level options) ''info'',
            formatter = opt_formatter options,
            webhookUrl = the_webhookUrl,
            channel = str_or (opt_channel options) [],
            username = str_or (opt_username options) [],
            iconEmoji = str_or (opt_iconEmoji options) [],
            iconUrl = str_or (opt_iconUrl options) [],
            unfurlLinks = (case opt_unfurlLinks options of None \<Rightarrow> False | Some b \<Rightarrow> b),
            limitPerSecond = the_limitPerSecond,
            limitWindowSeconds = the_limitWindowSeconds,
            host = url_hostname parsedUrl,
            port = port_or (url_port parsedUrl) 443,
            path = url_path parsedUrl,
            limitLambda =
              js_mul the_limitPerSecond
                (js_log (math_log rt) (js_add
                   (js_div (Fin 1) (js_mul the_limitPerSecond the_limitWindowSeconds))
                   (Fin 1))),
            limitSent = Fin 0,
            limitLastUpdate = clock rt n,
            limitNumDiscarded = 0\<rparr>,
          ticks = Suc n,
          trace = []\<rparr>)"

text \<open>
  \<^verbatim>\<open>getLimitSentAtDate\<close> (lines 43-48). The dates are subtracted as numbers, their time
  values.
\<close>

definition getLimitSentAtDate :: "'v node \<Rightarrow> 'v sink \<Rightarrow> int \<Rightarrow> jsnum" where
  "getLimitSentAtDate rt s date =
     (let secondsSinceUpdate =
            js_div (js_sub (Fin (of_int date)) (Fin (of_int (limitLastUpdate s)))) (Fin 1000);
          limitSentNow =
            js_mul (limitSent s)
              (js_exp (math_exp rt) (js_mul (js_neg (limitLambda s)) secondsSinceUpdate))
      in limitSentNow)"

text \<open>\<^verbatim>\<open>isRateLimitExceeded\<close> (lines 50-54): the answer, and the state after the call.\<close>

definition isRateLimitExceeded ::
  "'v node \<Rightarrow> ('v, 'c) machine \<Rightarrow> bool \<times> ('v, 'c) machine" where
  "isRateLimitExceeded rt m =
     (let (now, m1) = new_Date rt m;
          limitSentNow = getLimitSentAtDate rt (self m1) now
      in (js_gt limitSentNow (js_mul (limitPerSecond (self m1)) (limitWindowSeconds (self m1))),
          m1))"

text \<open>\<^verbatim>\<open>incrementLimitSent\<close> (lines 56-62)\<close>

definition incrementLimitSent :: "'v node \<Rightarrow> ('v, 'c) machine \<Rightarrow> ('v, 'c) machine" where
  "incrementLimitSent rt m =
     (let (nowDate, m1) = new_Date rt m;
          limitSentNow = getLimitSentAtDate rt (self m1) nowDate
      in m1\<lparr>self := (self m1)\<lparr>limitSent := js_add limitSentNow (Fin 1),
                               limitLastUpdate := nowDate\<rparr>,
            trace := trace m1 @ [LimitSentIncremented]\<rparr>)"

text \<open>
  \<^verbatim>\<open>Object.keys(meta)\<close> (line 82): the keys of the own enumerable properties; a
  \<^verbatim>\<open>TypeError\<close> for \<^verbatim>\<open>undefined\<close> and \<^verbatim>\<open>null\<close>.
\<close>

fun object_keys :: "'v jsmeta \<Rightarrow> js_error + string list" where
  "object_keys Undefined = Inl TypeError"
| "object_keys Null = Inl TypeError"
| "object_keys (Object ps h) = Inr (map prop_key (filter prop_own ps))"

text \<open>The \<^verbatim>\<open>switch\<close> of lines 84-88.\<close>

definition color_of :: "string \<Rightarrow> string" where
  "color_of lvl =
     (if lvl = ''error'' then ''danger'' else if lvl = ''warn'' then ''warning'' else ''good'')"

text \<open>
  What \<^verbatim>\<open>meta.hasOwnProperty\<close> (line 91) is on an object: an enumerable property of that
  name, when there is one, decides (a function, or something that cannot be called);
  otherwise the object's own resolution of the name does.
\<close>

definition hasOwnProperty_of :: "'v node \<Rightarrow> 'v property list \<Rightarrow> has_own \<Rightarrow> has_own" where
  "hasOwnProperty_of rt ps h =
     (case find (\<lambda>p. prop_key p = ''hasOwnProperty'') ps of
        None \<Rightarrow> h
      | Some p \<Rightarrow> (case as_function rt (prop_value p) of None \<Rightarrow> Missing | Some f \<Rightarrow> Custom f))"

text \<open>
  The call \<^verbatim>\<open>meta.hasOwnProperty(key)\<close> for the property being visited: the built-in
  method answers whether the property is an own one; a value that cannot be called gives a
  \<^verbatim>\<open>TypeError\<close>.
\<close>

fun call_hasOwnProperty :: "has_own \<Rightarrow> 'v property \<Rightarrow> js_error + bool" where
  "call_hasOwnProperty Builtin p = Inr (prop_own p)"
| "call_hasOwnProperty Missing p = Inl TypeError"
| "call_hasOwnProperty (Custom f) p = f (prop_key p)"

text \<open>
  The loop of lines 90-98 over the properties still to visit, with the array built so
  far. The two renderings of a property's value in one round (lines 93 and 94) are taken
  to be the same.
\<close>

fun push_attachments ::
  "('v \<Rightarrow> js_error + string) \<Rightarrow> has_own \<Rightarrow> string \<Rightarrow> 'v property list \<Rightarrow> attachment list
     \<Rightarrow> js_error + attachment list" where
  "push_attachments ins h c [] acc = Inr acc"
| "push_attachments ins h c (p # ps) acc =
     (case call_hasOwnProperty h p of
        Inl e \<Rightarrow> Inl e
      | Inr False \<Rightarrow> push_attachments ins h c ps acc
      | Inr True \<Rightarrow>
          (case ins (prop_value p) of
             Inl e \<Rightarrow> Inl e
           | Inr rendering \<Rightarrow>
               push_attachments ins h c ps
                 (acc @ [\<lparr>fallback = rendering,
                          a_text = prop_key p @ '': '' @ rendering,
                          color = c\<rparr>])))"

text \<open>
  Lines 65-100 of \<^verbatim>\<open>sendSlackLog\<close>: the payload built for a message, or the exception of
  line 82 or of the loop. The formatter, when the object has one, is called first with the
  level, the message and the metadata.
\<close>

definition sendSlackLog_payload ::
  "'v node \<Rightarrow> 'v sink \<Rightarrow> string \<Rightarrow> string \<Rightarrow> 'v jsmeta \<Rightarrow> js_error + payload" where
  "sendSlackLog_payload rt s lvl msg0 meta =
     (let msg = (case formatter s of Some f \<Rightarrow> f lvl msg0 meta | None \<Rightarrow> msg0);
          payload0 = \<lparr>p_text = msg, p_channel = channel s, p_username = username s,
                      icon_emoji = iconEmoji s, icon_url = iconUrl s,
                      unfurl_links = unfurlLinks s, attachments = None\<rparr>
      in case object_keys meta of
           Inl e \<Rightarrow> Inl e
         | Inr keys \<Rightarrow>
             (if 0 < length keys
              then (case meta of
                      Object ps h \<Rightarrow>
                        (case push_attachments (inspect rt) (hasOwnProperty_of rt ps h)
                                (color_of lvl) ps [] of
                           Inl e \<Rightarrow> Inl e
                         | Inr atts \<Rightarrow> Inr (payload0\<lparr>attachments := Some atts\<rparr>))
                    | _ \<Rightarrow> Inl TypeError)
              else Inr payload0))"

text \<open>Lines 104-128 of \<^verbatim>\<open>sendSlackLog\<close>: the request issued for a payload.\<close>

definition https_request :: "'v sink \<Rightarrow> payload \<Rightarrow> 'c completion \<Rightarrow> 'c request" where
  "https_request s data callback =
     \<lparr>req_host = host s, req_port = port s, req_path = path s, req_method = ''POST'',
      req_content_type = ''application/json'', req_data = data, on_response = callback\<rparr>"

text \<open>
  \<^verbatim>\<open>sendSlackLog\<close> (lines 64-129). A call that ends in an exception leaves the state as it
  was when the exception was thrown.
\<close>

definition sendSlackLog ::
  "'v node \<Rightarrow> string \<Rightarrow> string \<Rightarrow> 'v jsmeta \<Rightarrow> 'c completion \<Rightarrow> ('v, 'c) machine
     \<Rightarrow> returned \<times> ('v, 'c) machine" where
  "sendSlackLog rt lvl msg meta callback m =
     (case sendSlackLog_payload rt (self m) lvl msg meta of
        Inl e \<Rightarrow> (Threw e, m)
      | Inr data \<Rightarrow>
          (Returned,
           m\<lparr>trace := trace m @ [HttpsRequest (https_request (self m) data callback)]\<rparr>))"

text \<open>\<^verbatim>\<open>log\<close> (lines 131-144)\<close>

definition log_method ::
  "'v node \<Rightarrow> string \<Rightarrow> string \<Rightarrow> 'v jsmeta \<Rightarrow> 'c completion \<Rightarrow> ('v, 'c) machine
     \<Rightarrow> returned \<times> ('v, 'c) machine" where
  "log_method rt lvl msg meta callback m =
     (let (exceeded, m1) = isRateLimitExceeded rt m
      in if exceeded
         then (Returned,
               m1\<lparr>self := (self m1)\<lparr>limitNumDiscarded := limitNumDiscarded (self m1) + 1\<rparr>\<rparr>)
         else
           (let (r2, m2) =
                  (if 0 < limitNumDiscarded (self m1)
                   then (case sendSlackLog rt ''warn''
                                (''winston-slack-webhook discarded ''
                                   @ string_of_nat (limitNumDiscarded (self m1))
                                   @ '' messages'')
                                (Obj []) Noop m1 of
                           (Threw e, m') \<Rightarrow> (Threw e, m')
                         | (Returned, m') \<Rightarrow>
                             (Returned,
                              incrementLimitSent rt
                                (m'\<lparr>self := (self m')\<lparr>limitNumDiscarded := 0\<rparr>\<rparr>)))
                   else (Returned, m1))
            in case r2 of
                 Threw e \<Rightarrow> (Threw e, m2)
               | Returned \<Rightarrow>
                   (case sendSlackLog rt lvl msg meta callback m2 of
                      (Threw e, m3) \<Rightarrow> (Threw e, m3)
                    | (Returned, m3) \<Rightarrow> (Returned, incrementLimitSent rt m3))))"

section \<open>Delivery\<close>

text \<open>
  How a request ends: with a response (its status code and the chunks of its body), or
  with a failure of the connection, which the runtime reports as an \<^verbatim>\<open>'error'\<close> event on
  the request.
\<close>

datatype outcome = Responded nat "string list" | TransportError string

text \<open>
  What the end of a request makes happen: a call \<^verbatim>\<open>callback(err, body)\<close> (\<open>None\<close> for
  \<^verbatim>\<open>null\<close> or a missing argument, the error given by its message), or an exception that
  nothing catches.
\<close>

datatype 'c effect =
    CallbackInvoked "'c completion" "string option" "string option"
  | UncaughtException string

text \<open>
  The response listener of lines 113-125: the chunks are appended to \<^verbatim>\<open>body\<close>, and at
  \<^verbatim>\<open>'end'\<close> the callback is called once.
\<close>

definition response_listener :: "'c completion \<Rightarrow> nat \<Rightarrow> string list \<Rightarrow> 'c effect" where
  "response_listener callback statusCode chunks =
     (let body = foldl (@) [] chunks
      in if statusCode = 200
         then CallbackInvoked callback None (Some body)
         else CallbackInvoked callback
                (Some (''https request fails. statusCode '' @ string_of_nat statusCode
                         @ '', body '' @ body))
                None)"

text \<open>
  The end of a request issued by \<^verbatim>\<open>sendSlackLog\<close>. A response runs the response listener.
  The request has no \<^verbatim>\<open>'error'\<close> listener (lines 104-128 attach none), and an \<^verbatim>\<open>'error'\<close>
  event without a listener is thrown by the emitter.
\<close>

fun settle :: "'c request \<Rightarrow> outcome \<Rightarrow> 'c effect" where
  "settle req (Responded statusCode chunks) =
     response_listener (on_response req) statusCode chunks"
| "settle req (TransportError e) = UncaughtException e"

section \<open>Clients\<close>

text \<open>
  A client of the object calls its methods in any order; \<open>run\<close> makes the calls of a list
  one after the other. A call that throws leaves the object as it is at that point, and
  the client goes on.
\<close>

datatype ('v, 'c) method_call =
    Log string string "'v jsmeta" "'c completion"
  | IncrementLimitSent
  | IsRateLimitExceeded

fun invoke :: "'v node \<Rightarrow> ('v, 'c) method_call \<Rightarrow> ('v, 'c) machine \<Rightarrow> ('v, 'c) machine" where
  "invoke rt (Log lvl msg meta callback) m = snd (log_method rt lvl msg meta callback m)"
| "invoke rt IncrementLimitSent m = incrementLimitSent rt m"
| "invoke rt IsRateLimitExceeded m = snd (isRateLimitExceeded rt m)"

fun run :: "'v node \<Rightarrow> ('v, 'c) method_call list \<Rightarrow> ('v, 'c) machine \<Rightarrow> ('v, 'c) machine" where
  "run rt [] m = m"
| "run rt (c # cs) m = run rt cs (invoke rt c m)"

section \<open>Example runtimes\<close>

text \<open>
  A runtime for the concrete runs below. What the metadata properties hold are
  non-negative integers, which \<^verbatim>\<open>util.inspect\<close> renders in decimal and which are not
  functions; the webhook URL is left unparsed; the clock is given. \<^verbatim>\<open>Math.log\<close> and
  \<^verbatim>\<open>Math.exp\<close> return the double nearest to the exact value; at the arguments that the
  runs reach, these doubles are written out.
\<close>

definition example_log :: "real \<Rightarrow> jsnum" where
  "example_log x =
     (if x = 2 then Fin (6243314768165359 / 9007199254740992)
      else if x = 262145 then Fin (7023731261665581 / 562949953421312)
      else rnd (ln x))"

definition example_exp :: "real \<Rightarrow> jsnum" where
  "example_exp x =
     (if x = - (6243314768165359 / 9007199254740992) then Fin (1 / 2)
      else if x = - (7023731261665581 / 562949953421312)
      then Fin (9007164895133697 / 2361183241434822606848)
      else rnd (exp x))"

definition example_node :: "(nat \<Rightarrow> int) \<Rightarrow> nat node" where
  "example_node clk =
     \<lparr>inspect = (\<lambda>v. Inr (string_of_nat v)),
      as_function = (\<lambda>v. None),
      url_parse = (\<lambda>u. \<lparr>url_hostname = None, url_port = None, url_path = None\<rparr>),
      clock = clk,
      math_log = example_log,
      math_exp = example_exp\<rparr>"

text \<open>The options \<^verbatim>\<open>{limitPerSecond: r, limitWindowSeconds: w}\<close>.\<close>

definition limit_options :: "jsnum \<Rightarrow> jsnum \<Rightarrow> nat options" where
  "limit_options r w =
     no_options\<lparr>opt_limitPerSecond := Some r, opt_limitWindowSeconds := Some w\<rparr>"

section \<open>Properties\<close>

subsection \<open>Rounding\<close>

lemma round_half_even_of_int [simp]: "round_half_even (of_int k) = k"
  by (simp add: round_half_even_def)

lemma round_half_even_bounds:
  "\<lfloor>y\<rfloor> \<le> round_half_even y" "round_half_even y \<le> \<lfloor>y\<rfloor> + 1"
  by (simp_all add: round_half_even_def Let_def)

lemma round_half_even_0 [simp]: "round_half_even 0 = 0"
  using round_half_even_of_int [of 0] by simp

lemma rnd_0 [simp]: "rnd 0 = Fin 0"
  by (simp add: rnd_def)

lemma rnd_normal:
  assumes lo: "2 powi n \<le> \<bar>x\<bar>" and hi: "\<bar>x\<bar> < 2 powi (n + 1)"
    and n: "- 1022 \<le> n" "n \<le> 1022"
  shows "rnd x = Fin (of_int (round_half_even (x / 2 powi (n - 52))) * 2 powi (n - 52))"
proof -
  have pos: "0 < \<bar>x\<bar>"
    using lo zero_less_power_int [of "2::real" n] by linarith
  have pw: "(2::real) powr of_int k = 2 powi k" for k :: int
    by (rule powr_real_of_int') simp_all
  have "(2::real) powr of_int n = 2 powi n" "(2::real) powr (of_int n + 1) = 2 powi (n + 1)"
    using pw [of n] pw [of "n + 1"] by simp_all
  then have "(2::real) powr of_int n \<le> \<bar>x\<bar>" "\<bar>x\<bar> < 2 powr (of_int n + 1)"
    using lo hi by simp_all
  then have fl: "\<lfloor>log 2 \<bar>x\<bar>\<rfloor> = n"
    using pos by (simp add: floor_log_eq_powr_iff)
  have "(2::real) powi (- 1022) \<le> 2 powi n"
    using n by (intro power_int_increasing) simp_all
  then have normal: "\<not> \<bar>x\<bar> < 2 powi (- 1022)"
    using lo by linarith
  define z where "z = x / 2 powi (n - 52)"
  have p: "(0::real) < 2 powi (n - 52)" by simp
  have "\<bar>z\<bar> < 2 powi (n + 1) / 2 powi (n - 52)"
    unfolding z_def abs_divide using hi p by (simp add: divide_strict_right_mono)
  also have "\<dots> = 2 powi 53"
    by (simp add: power_int_diff [symmetric])
  finally have zb: "\<bar>z\<bar> < 2 ^ 53" by simp
  then have "\<lfloor>z\<rfloor> < 2 ^ 53" "- (2 ^ 53) \<le> \<lfloor>z\<rfloor>"
    by (simp_all add: floor_less_iff le_floor_iff abs_less_iff)
  then have "\<bar>round_half_even z\<bar> \<le> 2 ^ 53"
    using round_half_even_bounds [of z] by linarith
  then have "\<bar>real_of_int (round_half_even z)\<bar> \<le> 2 ^ 53"
    by (metis of_int_abs of_int_le_iff of_int_numeral of_int_power)
  then have "\<bar>real_of_int (round_half_even z) * 2 powi (n - 52)\<bar> \<le> 2 ^ 53 * 2 powi (n - 52)"
    unfolding abs_mult using p by (simp add: mult_right_mono)
  also have "\<dots> = (2::real) powi (n + 1)"
    using power_int_add [of "2::real" 53 "n - 52"] by (simp add: add.commute)
  also have "\<dots> \<le> 2 powi 1023"
    using n by (intro power_int_increasing) simp_all
  also have "\<dots> < 2 powi 1024"
    by (intro power_int_strict_increasing) simp_all
  finally have "\<not> 2 powi 1024 \<le> \<bar>real_of_int (round_half_even z) * 2 powi (n - 52)\<bar>"
    by simp
  then show ?thesis
    unfolding rnd_def Let_def fl using normal by (simp add: z_def)
qed

lemma rnd_exact:
  assumes "2 powi n \<le> \<bar>x\<bar>" and "\<bar>x\<bar> < 2 powi (n + 1)" and "- 1022 \<le> n" "n \<le> 1022"
    and "x / 2 powi (n - 52) = of_int k"
  shows "rnd x = Fin x"
proof -
  have "of_int k * 2 powi (n - 52) = x"
    using assms(5) by (simp add: field_simps)
  then show ?thesis
    unfolding rnd_normal [OF assms(1-4)] assms(5) by simp
qed

lemma rnd_small_numerals:
  "rnd 1 = Fin 1" "rnd 2 = Fin 2" "rnd 3 = Fin 3" "rnd 1000 = Fin 1000"
     apply (rule rnd_exact [where n = 0 and k = "2 ^ 52"]; simp)
    apply (rule rnd_exact [where n = 1 and k = "2 ^ 52"]; simp)
   apply (rule rnd_exact [where n = 1 and k = "3 * 2 ^ 51"]; simp)
  apply (rule rnd_exact [where n = 9 and k = "1000 * 2 ^ 43"]; simp)
  done


subsection \<open>What the methods compute\<close>

lemma isRateLimitExceeded_eq:
  "isRateLimitExceeded rt m =
     (js_gt (getLimitSentAtDate rt (self m) (clock rt (ticks m)))
            (js_mul (limitPerSecond (self m)) (limitWindowSeconds (self m))),
      m\<lparr>ticks := Suc (ticks m)\<rparr>)"
  by (simp add: isRateLimitExceeded_def new_Date_def)

lemma incrementLimitSent_eq:
  "incrementLimitSent rt m =
     m\<lparr>self := (self m)\<lparr>limitSent :=
                js_add (getLimitSentAtDate rt (self m) (clock rt (ticks m))) (Fin 1),
              limitLastUpdate := clock rt (ticks m)\<rparr>,
       ticks := Suc (ticks m),
       trace := trace m @ [LimitSentIncremented]\<rparr>"
  by (simp add: incrementLimitSent_def new_Date_def)

lemma getLimitSentAtDate_discarded:
  "getLimitSentAtDate rt (s\<lparr>limitNumDiscarded := d\<rparr>) t = getLimitSentAtDate rt s t"
  by (simp add: getLimitSentAtDate_def)

subsection \<open>The limiter without a finite rate\<close>

lemma js_mul_NaN_right: "js_mul x NaN = NaN"
  by (cases x) simp_all

lemma getLimitSentAtDate_NaN:
  "limitLambda s = NaN \<Longrightarrow> getLimitSentAtDate rt s d = NaN"
  by (simp add: getLimitSentAtDate_def js_mul_NaN_right)

lemma num_or_cases:
  "num_or x (Fin 30) = PInf \<or> num_or x (Fin 30) = NInf
     \<or> (\<exists>a. a \<noteq> 0 \<and> num_or x (Fin 30) = Fin a)"
  by (cases "(x, Fin 30)" rule: num_or.cases) auto

lemma lambda_unlimited:
  assumes "w = PInf \<or> w = NInf \<or> (\<exists>a. a \<noteq> 0 \<and> w = Fin a)"
  shows "js_mul PInf (js_log lg (js_add (js_div (Fin 1) (js_mul PInf w)) (Fin 1))) = NaN"
  using assms by (auto simp: rnd_small_numerals)

lemma SlackWebHook_unlimited:
  fixes m0 :: "('v, 'c) machine"
  assumes "num_or (opt_limitPerSecond (case options0 of None \<Rightarrow> no_options | Some opts \<Rightarrow> opts)) PInf = PInf"
    and "m0 = SlackWebHook rt options0 n"
  shows "limitPerSecond (self m0) = PInf" and "limitLambda (self m0) = NaN"
    and "limitNumDiscarded (self m0) = 0" and "trace m0 = []"
  using assms lambda_unlimited [OF num_or_cases]
  by (simp_all add: SlackWebHook_def Let_def)

subsection \<open>What a call of log does\<close>

lemma sendSlackLog_payload_not_object:
  "sendSlackLog_payload rt s lvl msg Null = Inl TypeError"
  "sendSlackLog_payload rt s lvl msg Undefined = Inl TypeError"
  by (simp_all add: sendSlackLog_payload_def)

lemma sendSlackLog_payload_no_own:
  "filter prop_own ps = [] \<Longrightarrow>
   sendSlackLog_payload rt s lvl msg (Object ps h) =
     Inr \<lparr>p_text = (case formatter s of Some f \<Rightarrow> f lvl msg (Object ps h) | None \<Rightarrow> msg),
          p_channel = channel s, p_username = username s,
          icon_emoji = iconEmoji s, icon_url = iconUrl s, unfurl_links = unfurlLinks s,
          attachments = None\<rparr>"
  by (simp add: sendSlackLog_payload_def)

lemma push_attachments_builtin:
  assumes "\<forall>p \<in> set ps. prop_own p \<longrightarrow> ins (prop_value p) = Inr (ren (prop_value p))"
  shows "push_attachments ins Builtin c ps acc =
     Inr (acc @ map (\<lambda>p. \<lparr>fallback = ren (prop_value p),
                           a_text = prop_key p @ '': '' @ ren (prop_value p),
                           color = c\<rparr>) (filter prop_own ps))"
  using assms by (induction ps arbitrary: acc) simp_all

lemma sendSlackLog_payload_ordinary:
  assumes "find (\<lambda>p. prop_key p = ''hasOwnProperty'') ps = None"
    and "\<forall>p \<in> set ps. prop_own p \<longrightarrow> inspect rt (prop_value p) = Inr (ren (prop_value p))"
  shows "sendSlackLog_payload rt s lvl msg (Obj ps) =
     Inr \<lparr>p_text = (case formatter s of Some f \<Rightarrow> f lvl msg (Obj ps) | None \<Rightarrow> msg),
          p_channel = channel s, p_username = username s,
          icon_emoji = iconEmoji s, icon_url = iconUrl s, unfurl_links = unfurlLinks s,
          attachments =
            (if filter prop_own ps = [] then None
             else Some (map (\<lambda>p. \<lparr>fallback = ren (prop_value p),
                                   a_text = prop_key p @ '': '' @ ren (prop_value p),
                                   color = color_of lvl\<rparr>) (filter prop_own ps)))\<rparr>"
  using assms(1)
  by (simp add: sendSlackLog_payload_def hasOwnProperty_of_def
      push_attachments_builtin [OF assms(2)])

lemma sendSlackLog_payload_limiter:
  "sendSlackLog_payload rt (s\<lparr>limitSent := a, limitLastUpdate := b\<rparr>) lvl msg meta
     = sendSlackLog_payload rt s lvl msg meta"
  "sendSlackLog_payload rt (s\<lparr>limitNumDiscarded := d\<rparr>) lvl msg meta
     = sendSlackLog_payload rt s lvl msg meta"
  by (simp_all add: sendSlackLog_payload_def)

lemma https_request_limiter:
  "https_request (s\<lparr>limitSent := a, limitLastUpdate := b\<rparr>) data callback
     = https_request s data callback"
  "https_request (s\<lparr>limitNumDiscarded := d\<rparr>) data callback = https_request s data callback"
  by (simp_all add: https_request_def)

lemma log_method_discard:
  assumes "fst (isRateLimitExceeded rt m)"
  shows "log_method rt lvl msg meta callback m =
     (Returned,
      m\<lparr>self := (self m)\<lparr>limitNumDiscarded := limitNumDiscarded (self m) + 1\<rparr>,
        ticks := Suc (ticks m)\<rparr>)"
  using assms by (simp add: log_method_def isRateLimitExceeded_eq)

lemma log_method_send:
  assumes "\<not> fst (isRateLimitExceeded rt m)" and "limitNumDiscarded (self m) = 0"
  shows "log_method rt lvl msg meta callback m =
     (case sendSlackLog_payload rt (self m) lvl msg meta of
        Inl e \<Rightarrow> (Threw e, m\<lparr>ticks := Suc (ticks m)\<rparr>)
      | Inr data \<Rightarrow>
          (Returned,
           m\<lparr>self := (self m)\<lparr>limitSent :=
                    js_add (getLimitSentAtDate rt (self m) (clock rt (Suc (ticks m)))) (Fin 1),
                  limitLastUpdate := clock rt (Suc (ticks m))\<rparr>,
             ticks := Suc (Suc (ticks m)),
             trace := trace m @ [HttpsRequest (https_request (self m) data callback),
                                 LimitSentIncremented]\<rparr>))"
  using assms
  by (simp add: log_method_def isRateLimitExceeded_eq sendSlackLog_def incrementLimitSent_eq
      split: sum.splits)

lemma log_method_flush:
  assumes "\<not> fst (isRateLimitExceeded rt m)" and "0 < limitNumDiscarded (self m)"
  shows "log_method rt lvl msg meta callback m =
     (let s1 = (self m)\<lparr>limitNumDiscarded := 0,
                 limitSent :=
                   js_add (getLimitSentAtDate rt (self m) (clock rt (Suc (ticks m)))) (Fin 1),
                 limitLastUpdate := clock rt (Suc (ticks m))\<rparr>;
          notice = https_request (self m)
                     \<lparr>p_text =
                        (case formatter (self m) of
                           Some f \<Rightarrow> f ''warn''
                             (''winston-slack-webhook discarded ''
                                @ string_of_nat (limitNumDiscarded (self m)) @ '' messages'')
                             (Obj [])
                         | None \<Rightarrow> ''winston-slack-webhook discarded ''
                                @ string_of_nat (limitNumDiscarded (self m)) @ '' messages''),
                      p_channel = channel (self m), p_username = username (self m),
                      icon_emoji = iconEmoji (self m), icon_url = iconUrl (self m),
                      unfurl_links = unfurlLinks (self m), attachments = None\<rparr>
                     Noop
      in case sendSlackLog_payload rt (self m) lvl msg meta of
           Inl e \<Rightarrow>
             (Threw e,
              m\<lparr>self := s1, ticks := Suc (Suc (ticks m)),
                trace := trace m @ [HttpsRequest notice, LimitSentIncremented]\<rparr>)
         | Inr data \<Rightarrow>
             (Returned,
              m\<lparr>self := s1\<lparr>limitSent :=
                       js_add (getLimitSentAtDate rt s1 (clock rt (Suc (Suc (ticks m))))) (Fin 1),
                     limitLastUpdate := clock rt (Suc (Suc (ticks m)))\<rparr>,
                ticks := Suc (Suc (Suc (ticks m))),
                trace := trace m @ [HttpsRequest notice, LimitSentIncremented,
                                    HttpsRequest (https_request (self m) data callback),
                                    LimitSentIncremented]\<rparr>))"
  using assms
  by (simp add: log_method_def isRateLimitExceeded_eq sendSlackLog_def incrementLimitSent_eq
      sendSlackLog_payload_no_own sendSlackLog_payload_limiter https_request_limiter
      getLimitSentAtDate_discarded Let_def
      split: sum.splits cong: option.case_cong)

lemma log_method_unlimited:
  assumes "limitLambda (self m) = NaN" and "limitNumDiscarded (self m) = 0"
  shows "\<not> fst (isRateLimitExceeded rt m)"
    and "log_method rt lvl msg meta callback m =
     (case sendSlackLog_payload rt (self m) lvl msg meta of
        Inl e \<Rightarrow> (Threw e, m\<lparr>ticks := Suc (ticks m)\<rparr>)
      | Inr data \<Rightarrow>
          (Returned,
           m\<lparr>self := (self m)\<lparr>limitSent := NaN, limitLastUpdate := clock rt (Suc (ticks m))\<rparr>,
             ticks := Suc (Suc (ticks m)),
             trace := trace m @ [HttpsRequest (https_request (self m) data callback),
                                 LimitSentIncremented]\<rparr>))"
proof -
  show ok: "\<not> fst (isRateLimitExceeded rt m)"
    using assms by (simp add: isRateLimitExceeded_eq getLimitSentAtDate_NaN)
  show "log_method rt lvl msg meta callback m =
     (case sendSlackLog_payload rt (self m) lvl msg meta of
        Inl e \<Rightarrow> (Threw e, m\<lparr>ticks := Suc (ticks m)\<rparr>)
      | Inr data \<Rightarrow>
          (Returned,
           m\<lparr>self := (self m)\<lparr>limitSent := NaN, limitLastUpdate := clock rt (Suc (ticks m))\<rparr>,
             ticks := Suc (Suc (ticks m)),
             trace := trace m @ [HttpsRequest (https_request (self m) data callback),
                                 LimitSentIncremented]\<rparr>))"
    unfolding log_method_send [OF ok assms(2)]
    by (simp add: getLimitSentAtDate_NaN [OF assms(1)] split: sum.splits)
qed

lemma invoke_unlimited:
  assumes "limitLambda (self m) = NaN" and "limitNumDiscarded (self m) = 0"
  shows "limitLambda (self (invoke rt c m)) = NaN \<and> limitNumDiscarded (self (invoke rt c m)) = 0"
proof (cases c)
  case (Log lvl msg meta callback)
  show ?thesis
    unfolding Log invoke.simps log_method_unlimited(2) [OF assms]
    using assms by (simp split: sum.splits)
next
  case IncrementLimitSent
  then show ?thesis using assms by (simp add: incrementLimitSent_eq)
next
  case IsRateLimitExceeded
  then show ?thesis using assms by (simp add: isRateLimitExceeded_eq)
qed

lemma run_unlimited:
  assumes "limitLambda (self m) = NaN" and "limitNumDiscarded (self m) = 0"
  shows "limitLambda (self (run rt cs m)) = NaN \<and> limitNumDiscarded (self (run rt cs m)) = 0"
  using assms
proof (induction cs arbitrary: m)
  case Nil
  then show ?case by simp
next
  case (Cons c cs)
  from invoke_unlimited [OF Cons.prems, of rt c] show ?case
    by (simp add: Cons.IH)
qed

lemma unlimited_run:
  fixes m0 :: "('v, 'c) machine"
  assumes "num_or (opt_limitPerSecond (case options0 of None \<Rightarrow> no_options | Some opts \<Rightarrow> opts)) PInf = PInf"
    and m0: "m0 = SlackWebHook rt options0 n"
  shows "limitPerSecond (self m0) = PInf"
    and "limitLambda (self (run rt cs m0)) = NaN"
    and "limitNumDiscarded (self (run rt cs m0)) = 0"
proof -
  note c = SlackWebHook_unlimited [OF assms]
  note r = run_unlimited [OF c(2,3), of rt cs]
  show "limitPerSecond (self m0) = PInf" by (rule c(1))
  show "limitLambda (self (run rt cs m0)) = NaN" "limitNumDiscarded (self (run rt cs m0)) = 0"
    using r by simp_all
qed


subsection \<open>Concrete runs\<close>

lemma string_of_nat_3: "string_of_nat 3 = ''3''"
  by code_simp

lemma string_of_nat_500: "string_of_nat 500 = ''500''"
  by code_simp

lemma rnd_example_lambda:
  "rnd (6243314768165359 / 9007199254740992) = Fin (6243314768165359 / 9007199254740992)"
  by (rule rnd_exact [where n = "- 1" and k = 6243314768165359]; simp)

lemma example_limiter:
  fixes m0 :: "(nat, 'c) machine"
  assumes "m0 = SlackWebHook (example_node clk) (Some (limit_options (Fin 1) (Fin 1))) 0"
  shows "self m0 = \<lparr>name = ''slackWebHook'', level = ''info'', formatter = None, webhookUrl = [],
      channel = [], username = [], iconEmoji = [], iconUrl = [], unfurlLinks = False,
      limitPerSecond = Fin 1, limitWindowSeconds = Fin 1, host = None, port = PortNumber 443,
      path = None, limitLambda = Fin (6243314768165359 / 9007199254740992),
      limitSent = Fin 0, limitLastUpdate = clk 0, limitNumDiscarded = 0\<rparr>"
    and "ticks m0 = 1" and "trace m0 = []"
  using assms
  by (simp_all add: SlackWebHook_def example_node_def limit_options_def no_options_def Let_def
      rnd_small_numerals example_log_def rnd_example_lambda)

lemma example_two_sends:
  fixes m0 m2 :: "(nat, 'c) machine"
  assumes clk: "clk 0 = 0" "clk (Suc 0) = 0" "clk (Suc (Suc 0)) = 0"
    and m0: "m0 = SlackWebHook (example_node clk) (Some (limit_options (Fin 1) (Fin 1))) 0"
    and m2: "m2 = incrementLimitSent (example_node clk) (incrementLimitSent (example_node clk) m0)"
  shows "ticks m2 = 3" and "trace m2 = [LimitSentIncremented, LimitSentIncremented]"
    and "limitLambda (self m2) = Fin (6243314768165359 / 9007199254740992)"
    and "limitPerSecond (self m2) = Fin 1"
    and "limitWindowSeconds (self m2) = Fin 1" and "limitNumDiscarded (self m2) = 0"
    and "limitSent (self m2) = Fin 2" and "limitLastUpdate (self m2) = 0"
    and "formatter (self m2) = None"
proof -
  note e = example_limiter [OF m0]
  have c: "clock (example_node clk) i = clk i" "math_exp (example_node clk) = example_exp"
    for i by (simp_all add: example_node_def)
  show "ticks m2 = 3" and "trace m2 = [LimitSentIncremented, LimitSentIncremented]"
    and "limitLambda (self m2) = Fin (6243314768165359 / 9007199254740992)"
    and "limitPerSecond (self m2) = Fin 1"
    and "limitWindowSeconds (self m2) = Fin 1" and "limitNumDiscarded (self m2) = 0"
    and "limitSent (self m2) = Fin 2" and "limitLastUpdate (self m2) = 0"
    and "formatter (self m2) = None"
    by (simp_all add: m2 incrementLimitSent_eq getLimitSentAtDate_def js_sub_def e c clk
        rnd_small_numerals)
qed

lemma example_default:
  fixes m0 :: "(nat, 'c) machine"
  assumes "m0 = SlackWebHook (example_node clk) None 0"
  shows "self m0 = \<lparr>name = ''slackWebHook'', level = ''info'', formatter = None, webhookUrl = [],
      channel = [], username = [], iconEmoji = [], iconUrl = [], unfurlLinks = False,
      limitPerSecond = PInf, limitWindowSeconds = Fin 30, host = None, port = PortNumber 443,
      path = None, limitLambda = NaN, limitSent = Fin 0, limitLastUpdate = clk 0,
      limitNumDiscarded = 0\<rparr>"
    and "ticks m0 = 1" and "trace m0 = []"
  using assms
  by (simp_all add: SlackWebHook_def example_node_def no_options_def Let_def rnd_small_numerals)

subsection \<open>Discarded messages\<close>

text \<open>
  C5. A call of \<^verbatim>\<open>log\<close> made while \<^verbatim>\<open>isRateLimitExceeded\<close> answers true returns normally
  and changes one field of the object, \<^verbatim>\<open>limitNumDiscarded\<close>, which grows by one (the clock
  has been read once). No request is issued, so no callback can be called, and
  \<^verbatim>\<open>limitSent\<close> and \<^verbatim>\<open>limitLastUpdate\<close> are as before.
\<close>

theorem C5_discard_only_counts:
  assumes "fst (isRateLimitExceeded rt m)"
  shows "log_method rt lvl msg meta callback m =
       (Returned,
        m\<lparr>self := (self m)\<lparr>limitNumDiscarded := limitNumDiscarded (self m) + 1\<rparr>,
          ticks := Suc (ticks m)\<rparr>)
     \<and> trace (snd (log_method rt lvl msg meta callback m)) = trace m
     \<and> limitSent (self (snd (log_method rt lvl msg meta callback m))) = limitSent (self m)
     \<and> limitLastUpdate (self (snd (log_method rt lvl msg meta callback m)))
         = limitLastUpdate (self m)"
  by (simp add: log_method_discard [OF assms])

theorem C5_discard_only_counts_witness:
  "fst (isRateLimitExceeded (example_node (\<lambda>i. 0))
     (incrementLimitSent (example_node (\<lambda>i. 0)) (incrementLimitSent (example_node (\<lambda>i. 0))
        (SlackWebHook (example_node (\<lambda>i. 0)) (Some (limit_options (Fin 1) (Fin 1))) 0
           :: (nat, unit) machine))))
   \<and> limitNumDiscarded (self (snd (log_method (example_node (\<lambda>i. 0)) ''error'' ''boom'' Null (Caller ())
     (incrementLimitSent (example_node (\<lambda>i. 0)) (incrementLimitSent (example_node (\<lambda>i. 0))
        (SlackWebHook (example_node (\<lambda>i. 0)) (Some (limit_options (Fin 1) (Fin 1))) 0
           :: (nat, unit) machine)))))) = 1
   \<and> trace (snd (log_method (example_node (\<lambda>i. 0)) ''error'' ''boom'' Null (Caller ())
     (incrementLimitSent (example_node (\<lambda>i. 0)) (incrementLimitSent (example_node (\<lambda>i. 0))
        (SlackWebHook (example_node (\<lambda>i. 0)) (Some (limit_options (Fin 1) (Fin 1))) 0
           :: (nat, unit) machine)))))
     = [LimitSentIncremented, LimitSentIncremented]"
proof -
  define rt where "rt = example_node (\<lambda>i. 0)"
  define m0 :: "(nat, unit) machine"
    where "m0 = SlackWebHook rt (Some (limit_options (Fin 1) (Fin 1))) 0"
  define m2 where "m2 = incrementLimitSent rt (incrementLimitSent rt m0)"
  note e = example_two_sends [OF _ _ _ m0_def [unfolded rt_def] m2_def [unfolded rt_def]]
  have ex: "fst (isRateLimitExceeded rt m2)"
    by (simp add: isRateLimitExceeded_eq getLimitSentAtDate_def js_sub_def e rt_def
        example_node_def rnd_small_numerals)
  show ?thesis
    unfolding rt_def [symmetric] m0_def [symmetric] m2_def [symmetric]
    using C5_discard_only_counts [OF ex, of "''error''" "''boom''" Null "Caller ()"] ex
    by (simp add: e)
qed


subsection \<open>Metadata that is not an object\<close>

text \<open>
  C10. \<^verbatim>\<open>sendSlackLog\<close> called with metadata \<^verbatim>\<open>null\<close> or \<^verbatim>\<open>undefined\<close> throws a \<^verbatim>\<open>TypeError\<close>
  (from \<^verbatim>\<open>Object.keys\<close>) and issues no request. So a call of \<^verbatim>\<open>log\<close> with such metadata,
  made while the limit is not exceeded, ends with that \<^verbatim>\<open>TypeError\<close>: no request for the
  message is issued and the caller's callback is handed to no request. The only request
  such a call can issue is the discard notice, whose callback is \<^verbatim>\<open>noop\<close>.
\<close>

theorem C10_null_metadata_throws:
  assumes "meta = Null \<or> meta = Undefined" and "\<not> fst (isRateLimitExceeded rt m)"
  shows "sendSlackLog rt lvl msg meta callback m = (Threw TypeError, m)
     \<and> fst (log_method rt lvl msg meta callback m) = Threw TypeError
     \<and> (\<exists>evs. trace (snd (log_method rt lvl msg meta callback m)) = trace m @ evs
           \<and> (evs = []
               \<or> (\<exists>data. evs = [HttpsRequest (https_request (self m) data Noop),
                                 LimitSentIncremented])))"
proof -
  have p: "sendSlackLog_payload rt s lvl msg meta = Inl TypeError" for s :: "'a sink"
    using assms(1) by (auto simp: sendSlackLog_payload_not_object)
  have "fst (log_method rt lvl msg meta callback m) = Threw TypeError
     \<and> (\<exists>evs. trace (snd (log_method rt lvl msg meta callback m)) = trace m @ evs
           \<and> (evs = []
               \<or> (\<exists>data. evs = [HttpsRequest (https_request (self m) data Noop),
                                 LimitSentIncremented])))"
  proof (cases "limitNumDiscarded (self m) = 0")
    case True
    show ?thesis
      unfolding log_method_send [OF assms(2) True] p by simp
  next
    case False
    then have pos: "0 < limitNumDiscarded (self m)" by simp
    show ?thesis
      unfolding log_method_flush [OF assms(2) pos] p Let_def by simp (rule exI, rule refl)
  qed
  then show ?thesis by (simp add: sendSlackLog_def p)
qed

theorem C10_null_metadata_throws_witness:
  "\<not> fst (isRateLimitExceeded (example_node (\<lambda>i. 0))
        (SlackWebHook (example_node (\<lambda>i. 0)) None 0 :: (nat, unit) machine))
   \<and> fst (log_method (example_node (\<lambda>i. 0)) ''info'' ''hello'' Null (Caller ())
        (SlackWebHook (example_node (\<lambda>i. 0)) None 0 :: (nat, unit) machine)) = Threw TypeError
   \<and> trace (snd (log_method (example_node (\<lambda>i. 0)) ''info'' ''hello'' Null (Caller ())
        (SlackWebHook (example_node (\<lambda>i. 0)) None 0 :: (nat, unit) machine))) = []"
proof -
  define rt where "rt = example_node (\<lambda>i. 0)"
  define m0 :: "(nat, unit) machine" where "m0 = SlackWebHook rt None 0"
  note e = example_default [OF m0_def [unfolded rt_def]]
  have ok: "\<not> fst (isRateLimitExceeded rt m0)"
    by (simp add: isRateLimitExceeded_eq getLimitSentAtDate_NaN e)
  have t: "trace (snd (log_method rt ''info'' ''hello'' Null (Caller ()) m0)) = []"
    by (simp add: log_method_send [OF ok] e sendSlackLog_payload_not_object)
  show ?thesis
    unfolding rt_def [symmetric] m0_def [symmetric]
    using C10_null_metadata_throws [of Null rt m0 "''info''" "''hello''" "Caller ()"] ok t
    by simp
qed


subsection \<open>Delivery outcomes\<close>

lemma settle_response:
  "settle (https_request s data callback) (Responded 200 chunks)
     = CallbackInvoked callback None (Some (foldl (@) [] chunks))"
  "statusCode \<noteq> 200 \<Longrightarrow>
   settle (https_request s data callback) (Responded statusCode chunks)
     = CallbackInvoked callback
         (Some (''https request fails. statusCode '' @ string_of_nat statusCode
                  @ '', body '' @ foldl (@) [] chunks)) None"
  by (simp_all add: response_listener_def https_request_def)

text \<open>
  C8 fails on the code for a failure of the connection. A message is logged on a fresh
  object; its request, when the response has status 200, calls the callback with the body,
  and when the response has status 500, calls the callback with an error that names the
  status and the body; but when the connection fails, the callback is not called and the
  error is an uncaught exception, since the request has no \<^verbatim>\<open>'error'\<close> listener.
\<close>

theorem C8_transport_failure_uncaught:
  "trace (snd (log_method (example_node (\<lambda>i. 0)) ''info'' ''hello'' (Obj []) (Caller ())
        (SlackWebHook (example_node (\<lambda>i. 0)) None 0 :: (nat, unit) machine)))
     = [HttpsRequest
          \<lparr>req_host = None, req_port = PortNumber 443, req_path = None, req_method = ''POST'',
           req_content_type = ''application/json'',
           req_data = \<lparr>p_text = ''hello'', p_channel = [], p_username = [], icon_emoji = [],
                        icon_url = [], unfurl_links = False, attachments = None\<rparr>,
           on_response = Caller ()\<rparr>,
        LimitSentIncremented]
   \<and> settle \<lparr>req_host = None, req_port = PortNumber 443, req_path = None, req_method = ''POST'',
           req_content_type = ''application/json'',
           req_data = \<lparr>p_text = ''hello'', p_channel = [], p_username = [], icon_emoji = [],
                        icon_url = [], unfurl_links = False, attachments = None\<rparr>,
           on_response = Caller ()\<rparr>
        (Responded 200 [''o'', ''k''])
      = CallbackInvoked (Caller ()) None (Some ''ok'')
   \<and> settle \<lparr>req_host = None, req_port = PortNumber 443, req_path = None, req_method = ''POST'',
           req_content_type = ''application/json'',
           req_data = \<lparr>p_text = ''hello'', p_channel = [], p_username = [], icon_emoji = [],
                        icon_url = [], unfurl_links = False, attachments = None\<rparr>,
           on_response = Caller ()\<rparr>
        (Responded 500 [''oops''])
      = CallbackInvoked (Caller ()) (Some ''https request fails. statusCode 500, body oops'') None
   \<and> settle \<lparr>req_host = None, req_port = PortNumber 443, req_path = None, req_method = ''POST'',
           req_content_type = ''application/json'',
           req_data = \<lparr>p_text = ''hello'', p_channel = [], p_username = [], icon_emoji = [],
                        icon_url = [], unfurl_links = False, attachments = None\<rparr>,
           on_response = Caller ()\<rparr>
        (TransportError ''connect ECONNREFUSED'')
      = UncaughtException ''connect ECONNREFUSED''"
proof -
  define rt where "rt = example_node (\<lambda>i. 0)"
  define m0 :: "(nat, unit) machine" where "m0 = SlackWebHook rt None 0"
  note e = example_default [OF m0_def [unfolded rt_def]]
  have ok: "\<not> fst (isRateLimitExceeded rt m0)"
    by (simp add: isRateLimitExceeded_eq getLimitSentAtDate_NaN e)
  have "trace (snd (log_method rt ''info'' ''hello'' (Obj []) (Caller ()) m0))
     = [HttpsRequest
          \<lparr>req_host = None, req_port = PortNumber 443, req_path = None, req_method = ''POST'',
           req_content_type = ''application/json'',
           req_data = \<lparr>p_text = ''hello'', p_channel = [], p_username = [], icon_emoji = [],
                        icon_url = [], unfurl_links = False, attachments = None\<rparr>,
           on_response = Caller ()\<rparr>,
        LimitSentIncremented]"
    by (simp add: log_method_send [OF ok] e sendSlackLog_payload_no_own https_request_def)
  then show ?thesis
    unfolding rt_def [symmetric] m0_def [symmetric]
    by (simp add: response_listener_def string_of_nat_500)
qed



subsection \<open>Unlimited objects\<close>

lemma sendSlackLog_payload_ordinary_ex:
  assumes "find (\<lambda>p. prop_key p = ''hasOwnProperty'') ps = None"
    and "\<forall>p \<in> set ps. prop_own p \<longrightarrow> (\<exists>r. inspect rt (prop_value p) = Inr r)"
  shows "\<exists>data. sendSlackLog_payload rt s lvl msg (Obj ps) = Inr data"
proof -
  define ren where "ren = (\<lambda>v. case inspect rt v of Inr r \<Rightarrow> r | Inl e \<Rightarrow> [])"
  have "\<forall>p \<in> set ps. prop_own p \<longrightarrow> inspect rt (prop_value p) = Inr (ren (prop_value p))"
    using assms(2) by (auto simp: ren_def)
  from sendSlackLog_payload_ordinary [OF assms(1) this] show ?thesis by blast
qed

lemma unlimited_log:
  fixes m0 :: "('v, 'c) machine"
  assumes u: "num_or (opt_limitPerSecond (case options0 of None \<Rightarrow> no_options | Some opts \<Rightarrow> opts)) PInf = PInf"
    and m0: "m0 = SlackWebHook rt options0 n"
    and m: "m = run rt cs m0"
  shows "limitPerSecond (self m0) = PInf
     \<and> \<not> fst (isRateLimitExceeded rt m)
     \<and> limitNumDiscarded (self m) = 0
     \<and> log_method rt lvl msg meta callback m =
         (case sendSlackLog_payload rt (self m) lvl msg meta of
            Inl e \<Rightarrow> (Threw e, m\<lparr>ticks := Suc (ticks m)\<rparr>)
          | Inr data \<Rightarrow>
              (Returned,
               m\<lparr>self := (self m)\<lparr>limitSent := NaN,
                                    limitLastUpdate := clock rt (Suc (ticks m))\<rparr>,
                 ticks := Suc (Suc (ticks m)),
                 trace := trace m @ [HttpsRequest (https_request (self m) data callback),
                                     LimitSentIncremented]\<rparr>))
     \<and> (find (\<lambda>p. prop_key p = ''hasOwnProperty'') ps = None
          \<and> (\<forall>p \<in> set ps. prop_own p \<longrightarrow> (\<exists>r. inspect rt (prop_value p) = Inr r))
        \<longrightarrow> fst (log_method rt lvl' msg' (Obj ps) callback' m) = Returned)"
proof -
  note r = unlimited_run [OF u m0]
  have i: "limitLambda (self m) = NaN" "limitNumDiscarded (self m) = 0"
    using r(2,3) [of cs] by (simp_all add: m)
  note l = log_method_unlimited [OF i]
  have "fst (log_method rt lvl' msg' (Obj ps) callback' m) = Returned"
    if "find (\<lambda>p. prop_key p = ''hasOwnProperty'') ps = None"
      and "\<forall>p \<in> set ps. prop_own p \<longrightarrow> (\<exists>r. inspect rt (prop_value p) = Inr r)"
    using sendSlackLog_payload_ordinary_ex [OF that, where s = "self m" and lvl = lvl' and msg = msg']
    unfolding l(2) by auto
  then show ?thesis
    using r(1) i(2) l(1) [where rt = rt]
      l(2) [where rt = rt and lvl = lvl and msg = msg and meta = meta and callback = callback]
    by blast
qed

text \<open>
  C7. The object is constructed without options, or with options in which
  \<^verbatim>\<open>limitPerSecond\<close> is missing or is \<^verbatim>\<open>Infinity\<close>. Then, after any sequence of calls of its
  methods and for any clock, \<^verbatim>\<open>isRateLimitExceeded\<close> answers false and no message has been
  discarded. A call of \<^verbatim>\<open>log\<close> then never takes the discard branch: it issues the request
  for its message and runs \<^verbatim>\<open>incrementLimitSent\<close>, unless building the payload throws; and
  it does not throw for an ordinary object whose properties can be rendered and are not
  named \<^verbatim>\<open>hasOwnProperty\<close>.
\<close>

theorem C7_infinite_rate_never_exceeded:
  fixes m0 :: "('v, 'c) machine"
  assumes "options0 = None
      \<or> (\<exists>opts. options0 = Some opts
            \<and> (opt_limitPerSecond opts = None \<or> opt_limitPerSecond opts = Some PInf))"
    and m0: "m0 = SlackWebHook rt options0 n"
    and m: "m = run rt cs m0"
  shows "limitPerSecond (self m0) = PInf
     \<and> \<not> fst (isRateLimitExceeded rt m)
     \<and> limitNumDiscarded (self m) = 0
     \<and> log_method rt lvl msg meta callback m =
         (case sendSlackLog_payload rt (self m) lvl msg meta of
            Inl e \<Rightarrow> (Threw e, m\<lparr>ticks := Suc (ticks m)\<rparr>)
          | Inr data \<Rightarrow>
              (Returned,
               m\<lparr>self := (self m)\<lparr>limitSent := NaN,
                                    limitLastUpdate := clock rt (Suc (ticks m))\<rparr>,
                 ticks := Suc (Suc (ticks m)),
                 trace := trace m @ [HttpsRequest (https_request (self m) data callback),
                                     LimitSentIncremented]\<rparr>))
     \<and> (find (\<lambda>p. prop_key p = ''hasOwnProperty'') ps = None
          \<and> (\<forall>p \<in> set ps. prop_own p \<longrightarrow> (\<exists>r. inspect rt (prop_value p) = Inr r))
        \<longrightarrow> fst (log_method rt lvl' msg' (Obj ps) callback' m) = Returned)"
proof -
  have "num_or (opt_limitPerSecond (case options0 of None \<Rightarrow> no_options | Some opts \<Rightarrow> opts)) PInf
      = PInf"
    using assms(1) by (auto simp: no_options_def)
  from unlimited_log [OF this m0 m] show ?thesis .
qed

theorem C7_infinite_rate_never_exceeded_witness:
  "\<not> fst (isRateLimitExceeded (example_node int)
        (run (example_node int)
           [Log ''info'' ''one'' (Obj []) (Caller ()), IncrementLimitSent,
            Log ''error'' ''two'' Null (Caller ()), IsRateLimitExceeded,
            Log ''warn'' ''three'' (Obj [Prop ''attempt'' True 3]) (Caller ())]
           (SlackWebHook (example_node int) None 0 :: (nat, unit) machine)))
   \<and> limitNumDiscarded (self
        (run (example_node int)
           [Log ''info'' ''one'' (Obj []) (Caller ()), IncrementLimitSent,
            Log ''error'' ''two'' Null (Caller ()), IsRateLimitExceeded,
            Log ''warn'' ''three'' (Obj [Prop ''attempt'' True 3]) (Caller ())]
           (SlackWebHook (example_node int) None 0 :: (nat, unit) machine))) = 0
   \<and> fst (log_method (example_node int) ''info'' ''four'' (Obj [Prop ''attempt'' True 3])
        (Caller ())
        (run (example_node int)
           [Log ''info'' ''one'' (Obj []) (Caller ()), IncrementLimitSent,
            Log ''error'' ''two'' Null (Caller ()), IsRateLimitExceeded,
            Log ''warn'' ''three'' (Obj [Prop ''attempt'' True 3]) (Caller ())]
           (SlackWebHook (example_node int) None 0 :: (nat, unit) machine))) = Returned"
proof -
  define cs :: "(nat, unit) method_call list" where
    "cs = [Log ''info'' ''one'' (Obj []) (Caller ()), IncrementLimitSent,
           Log ''error'' ''two'' Null (Caller ()), IsRateLimitExceeded,
           Log ''warn'' ''three'' (Obj [Prop ''attempt'' True 3]) (Caller ())]"
  define m0 :: "(nat, unit) machine" where "m0 = SlackWebHook (example_node int) None 0"
  define m where "m = run (example_node int) cs m0"
  have o: "None = None
      \<or> (\<exists>opts. (None :: nat options option) = Some opts
            \<and> (opt_limitPerSecond opts = None \<or> opt_limitPerSecond opts = Some PInf))"
    by simp
  have p: "find (\<lambda>p. prop_key p = ''hasOwnProperty'') [Prop ''attempt'' True (3::nat)] = None
      \<and> (\<forall>p \<in> set [Prop ''attempt'' True (3::nat)].
            prop_own p \<longrightarrow> (\<exists>r. inspect (example_node int) (prop_value p) = Inr r))"
    by (simp add: example_node_def)
  show ?thesis
    unfolding cs_def [symmetric] m0_def [symmetric] m_def [symmetric]
    using C7_infinite_rate_never_exceeded [OF o m0_def m_def,
        where ps = "[Prop ''attempt'' True 3]" and lvl' = "''info''" and msg' = "''four''"
          and callback' = "Caller ()"] p
    by blast
qed

text \<open>
  C6 (as the code has it). An option \<^verbatim>\<open>limitPerSecond: 0\<close> is falsy, so the constructor
  takes the default in its place: \<^verbatim>\<open>limitPerSecond\<close> is \<^verbatim>\<open>Infinity\<close>. After any sequence of
  calls of the methods \<^verbatim>\<open>isRateLimitExceeded\<close> answers false and no message has been
  discarded, and a call of \<^verbatim>\<open>log\<close> never takes the discard branch: it issues the request
  for its message and runs \<^verbatim>\<open>incrementLimitSent\<close>, unless building the payload throws; and
  it does not throw for an ordinary object whose properties can be rendered and are not
  named \<^verbatim>\<open>hasOwnProperty\<close>.
\<close>

theorem C6_zero_rate_is_unlimited:
  fixes m0 :: "('v, 'c) machine"
  assumes "opt_limitPerSecond opts = Some (Fin 0)"
    and m0: "m0 = SlackWebHook rt (Some opts) n"
    and m: "m = run rt cs m0"
  shows "limitPerSecond (self m0) = PInf
     \<and> \<not> fst (isRateLimitExceeded rt m)
     \<and> limitNumDiscarded (self m) = 0
     \<and> log_method rt lvl msg meta callback m =
         (case sendSlackLog_payload rt (self m) lvl msg meta of
            Inl e \<Rightarrow> (Threw e, m\<lparr>ticks := Suc (ticks m)\<rparr>)
          | Inr data \<Rightarrow>
              (Returned,
               m\<lparr>self := (self m)\<lparr>limitSent := NaN,
                                    limitLastUpdate := clock rt (Suc (ticks m))\<rparr>,
                 ticks := Suc (Suc (ticks m)),
                 trace := trace m @ [HttpsRequest (https_request (self m) data callback),
                                     LimitSentIncremented]\<rparr>))
     \<and> (find (\<lambda>p. prop_key p = ''hasOwnProperty'') ps = None
          \<and> (\<forall>p \<in> set ps. prop_own p \<longrightarrow> (\<exists>r. inspect rt (prop_value p) = Inr r))
        \<longrightarrow> fst (log_method rt lvl' msg' (Obj ps) callback' m) = Returned)"
proof -
  have "num_or (opt_limitPerSecond (case Some opts of None \<Rightarrow> no_options | Some opts \<Rightarrow> opts)) PInf
      = PInf"
    using assms(1) by simp
  from unlimited_log [OF this m0 m] show ?thesis .
qed

theorem C6_zero_rate_is_unlimited_witness:
  "limitPerSecond (self (SlackWebHook (example_node int)
       (Some (limit_options (Fin 0) (Fin 30))) 0 :: (nat, unit) machine)) = PInf
   \<and> \<not> fst (isRateLimitExceeded (example_node int)
        (run (example_node int)
           [Log ''info'' ''one'' (Obj []) (Caller ()), Log ''info'' ''two'' (Obj []) (Caller ())]
           (SlackWebHook (example_node int) (Some (limit_options (Fin 0) (Fin 30))) 0
              :: (nat, unit) machine)))
   \<and> fst (log_method (example_node int) ''info'' ''three'' (Obj [Prop ''attempt'' True 3])
        (Caller ())
        (run (example_node int)
           [Log ''info'' ''one'' (Obj []) (Caller ()), Log ''info'' ''two'' (Obj []) (Caller ())]
           (SlackWebHook (example_node int) (Some (limit_options (Fin 0) (Fin 30))) 0
              :: (nat, unit) machine))) = Returned"
proof -
  define cs :: "(nat, unit) method_call list" where
    "cs = [Log ''info'' ''one'' (Obj []) (Caller ()), Log ''info'' ''two'' (Obj []) (Caller ())]"
  define m0 :: "(nat, unit) machine"
    where "m0 = SlackWebHook (example_node int) (Some (limit_options (Fin 0) (Fin 30))) 0"
  define m where "m = run (example_node int) cs m0"
  have o: "opt_limitPerSecond (limit_options (Fin 0) (Fin 30)) = Some (Fin 0)"
    by (simp add: limit_options_def)
  have p: "find (\<lambda>p. prop_key p = ''hasOwnProperty'') [Prop ''attempt'' True (3::nat)] = None
      \<and> (\<forall>p \<in> set [Prop ''attempt'' True (3::nat)].
            prop_own p \<longrightarrow> (\<exists>r. inspect (example_node int) (prop_value p) = Inr r))"
    by (simp add: example_node_def)
  show ?thesis
    unfolding cs_def [symmetric] m0_def [symmetric] m_def [symmetric]
    using C6_zero_rate_is_unlimited [OF o m0_def m_def,
        where ps = "[Prop ''attempt'' True 3]" and lvl' = "''info''" and msg' = "''three''"
          and callback' = "Caller ()"] p
    by blast
qed

text \<open>
  The claim C6 as stated fails: with \<^verbatim>\<open>limitPerSecond: 0\<close>, after one
  \<^verbatim>\<open>incrementLimitSent\<close> the limit is not exceeded at the same instant, and the next message
  is sent, not discarded.
\<close>

theorem C6_zero_rate_counterexample:
  "\<not> fst (isRateLimitExceeded (example_node (\<lambda>i. 0))
        (incrementLimitSent (example_node (\<lambda>i. 0))
           (SlackWebHook (example_node (\<lambda>i. 0)) (Some (limit_options (Fin 0) (Fin 30))) 0
              :: (nat, unit) machine)))
   \<and> limitNumDiscarded (self (snd
        (log_method (example_node (\<lambda>i. 0)) ''info'' ''second'' (Obj []) (Caller ())
           (incrementLimitSent (example_node (\<lambda>i. 0))
              (SlackWebHook (example_node (\<lambda>i. 0)) (Some (limit_options (Fin 0) (Fin 30))) 0
                 :: (nat, unit) machine))))) = 0
   \<and> length (trace (snd
        (log_method (example_node (\<lambda>i. 0)) ''info'' ''second'' (Obj []) (Caller ())
           (incrementLimitSent (example_node (\<lambda>i. 0))
              (SlackWebHook (example_node (\<lambda>i. 0)) (Some (limit_options (Fin 0) (Fin 30))) 0
                 :: (nat, unit) machine))))) = 3"
proof -
  define rt where "rt = example_node (\<lambda>i. 0)"
  define m0 :: "(nat, unit) machine"
    where "m0 = SlackWebHook rt (Some (limit_options (Fin 0) (Fin 30))) 0"
  define m1 where "m1 = incrementLimitSent rt m0"
  have s: "limitLambda (self m0) = NaN" "limitNumDiscarded (self m0) = 0" "trace m0 = []"
    by (simp_all add: m0_def SlackWebHook_def limit_options_def Let_def rnd_small_numerals)
  have s1: "limitLambda (self m1) = NaN" "limitNumDiscarded (self m1) = 0"
    "trace m1 = [LimitSentIncremented]"
    by (simp_all add: m1_def incrementLimitSent_eq s)
  have ok: "\<not> fst (isRateLimitExceeded rt m1)"
    by (simp add: isRateLimitExceeded_eq getLimitSentAtDate_NaN s1)
  show ?thesis
    unfolding rt_def [symmetric] m0_def [symmetric] m1_def [symmetric]
    using ok by (simp add: log_method_send [OF ok s1(2)] sendSlackLog_payload_no_own s1)
qed


subsection \<open>Messages sent at exactly the allowed rate\<close>

lemma round_half_even_nearest:
  assumes "\<bar>y - of_int k\<bar> < 1 / 2"
  shows "round_half_even y = k"
proof -
  consider "of_int k \<le> y" | "y < of_int k" by linarith
  then show ?thesis
  proof cases
    case 1
    then have "\<lfloor>y\<rfloor> = k" using assms by (simp add: floor_eq_iff abs_less_iff)
    then show ?thesis using assms 1 by (simp add: round_half_even_def abs_less_iff)
  next
    case 2
    then have "\<lfloor>y\<rfloor> = k - 1" using assms by (simp add: floor_eq_iff abs_less_iff)
    then show ?thesis using assms 2 by (simp add: round_half_even_def Let_def abs_less_iff)
  qed
qed

lemma rnd_nearest:
  assumes "2 powi n \<le> \<bar>x\<bar>" and "\<bar>x\<bar> < 2 powi (n + 1)" and "- 1022 \<le> n" "n \<le> 1022"
    and "\<bar>x / 2 powi (n - 52) - of_int k\<bar> < 1 / 2"
  shows "rnd x = Fin (of_int k * 2 powi (n - 52))"
  unfolding rnd_normal [OF assms(1-4)] round_half_even_nearest [OF assms(5)] ..

lemma steady_roundings:
  "rnd (1 / 262144) = Fin (1 / 262144)"
  "rnd 262144 = Fin 262144"
  "rnd 262145 = Fin 262145"
  "rnd (7023731261665581 / 562949953421312) = Fin (7023731261665581 / 562949953421312)"
  "rnd (- (7023731261665581 / 562949953421312)) = Fin (- (7023731261665581 / 562949953421312))"
  "rnd (9007164895133697 / 2361183241434822606848)
     = Fin (9007164895133697 / 2361183241434822606848)"
  "rnd (9007164895133697 / 2361183241434822606848 + 1) = Fin (68719738879 / 68719476736)"
  "rnd (68719738879 / 68719476736 * (9007164895133697 / 2361183241434822606848))
     = Fin (4503599627304961 / 1180591620717411303424)"
  "rnd (4503599627304961 / 1180591620717411303424 + 1) = Fin (262145 / 262144)"
  "rnd (262145 / 262144 * (9007164895133697 / 2361183241434822606848))
     = Fin (4503599627370497 / 1180591620717411303424)"
proof -
  show "rnd (1 / 262144) = Fin (1 / 262144)"
    by (rule rnd_exact [where n = "- 18" and k = 4503599627370496]; simp)
  show "rnd 262144 = Fin 262144"
    by (rule rnd_exact [where n = 18 and k = 4503599627370496]; simp)
  show "rnd 262145 = Fin 262145"
    by (rule rnd_exact [where n = 18 and k = 4503616807239680]; simp)
  show "rnd (7023731261665581 / 562949953421312) = Fin (7023731261665581 / 562949953421312)"
    by (rule rnd_exact [where n = 3 and k = 7023731261665581]; simp)
  show "rnd (- (7023731261665581 / 562949953421312))
      = Fin (- (7023731261665581 / 562949953421312))"
    by (rule rnd_exact [where n = 3 and k = "- 7023731261665581"]; simp)
  show "rnd (9007164895133697 / 2361183241434822606848)
      = Fin (9007164895133697 / 2361183241434822606848)"
    by (rule rnd_exact [where n = "- 19" and k = 9007164895133697]; simp)
  show "rnd (9007164895133697 / 2361183241434822606848 + 1) = Fin (68719738879 / 68719476736)"
    using rnd_nearest [where n = 0 and k = 4503616807174144
        and x = "9007164895133697 / 2361183241434822606848 + 1"]
    by simp
  show "rnd (68719738879 / 68719476736 * (9007164895133697 / 2361183241434822606848))
      = Fin (4503599627304961 / 1180591620717411303424)"
    using rnd_nearest [where n = "- 19" and k = 9007199254609922
        and x = "68719738879 / 68719476736 * (9007164895133697 / 2361183241434822606848)"]
    by simp
  show "rnd (4503599627304961 / 1180591620717411303424 + 1) = Fin (262145 / 262144)"
    using rnd_nearest [where n = 0 and k = 4503616807239680
        and x = "4503599627304961 / 1180591620717411303424 + 1"]
    by simp
  show "rnd (262145 / 262144 * (9007164895133697 / 2361183241434822606848))
      = Fin (4503599627370497 / 1180591620717411303424)"
    using rnd_nearest [where n = "- 18" and k = 4503599627370497
        and x = "262145 / 262144 * (9007164895133697 / 2361183241434822606848)"]
    by simp
qed


text \<open>
  C1 fails on the code, which computes in doubles. The object is constructed with
  \<^verbatim>\<open>limitPerSecond = 1\<close> and \<^verbatim>\<open>limitWindowSeconds = 1 / 262144\<close>, so the budget is \<open>1 / 262144\<close>,
  and \<^verbatim>\<open>incrementLimitSent\<close> is called at 0, 1000 and 2000 milliseconds, exactly one second
  apart. \<^verbatim>\<open>limitLambda\<close> is the double that \<^verbatim>\<open>Math.log(262145)\<close> returns. At 3000 milliseconds,
  the instant of the next message at the allowed rate, the projected score is the double
  just above the budget: \<^verbatim>\<open>isRateLimitExceeded\<close> answers true and \<^verbatim>\<open>log\<close> discards the
  message.
\<close>

theorem C1_steady_rate_exceeds_in_doubles:
  "(let rt = example_node (\<lambda>i. int (i - 1) * 1000);
        m0 = SlackWebHook rt (Some (limit_options (Fin 1) (Fin (1 / 262144)))) 0
               :: (nat, unit) machine;
        m3 = incrementLimitSent rt (incrementLimitSent rt (incrementLimitSent rt m0))
    in limitLambda (self m0) = Fin (7023731261665581 / 562949953421312)
     \<and> js_mul (limitPerSecond (self m3)) (limitWindowSeconds (self m3)) = Fin (1 / 262144)
     \<and> limitLastUpdate (self m3) = 2000
     \<and> clock rt (ticks m3) = 3000
     \<and> getLimitSentAtDate rt (self m3) 3000
         = Fin (4503599627370497 / 1180591620717411303424)
     \<and> 1 / 262144 < (4503599627370497 / 1180591620717411303424 :: real)
     \<and> fst (isRateLimitExceeded rt m3)
     \<and> limitNumDiscarded (self (snd (log_method rt ''info'' ''fourth'' (Obj []) (Caller ()) m3)))
         = 1
     \<and> trace (snd (log_method rt ''info'' ''fourth'' (Obj []) (Caller ()) m3)) = trace m3)"
proof -
  define rt where "rt = example_node (\<lambda>i. int (i - 1) * 1000)"
  define m0 :: "(nat, unit) machine"
    where "m0 = SlackWebHook rt (Some (limit_options (Fin 1) (Fin (1 / 262144)))) 0"
  define m1 where "m1 = incrementLimitSent rt m0"
  define m2 where "m2 = incrementLimitSent rt m1"
  define m3 where "m3 = incrementLimitSent rt m2"
  note sr = steady_roundings [simplified]
  have c: "clock rt 0 = 0" "clock rt (Suc 0) = 0" "clock rt 2 = 1000" "clock rt 3 = 2000"
    "clock rt 4 = 3000" "math_exp rt = example_exp" "math_log rt = example_log"
    by (simp_all add: rt_def example_node_def)
  have s0: "limitLambda (self m0) = Fin (7023731261665581 / 562949953421312)"
    "limitPerSecond (self m0) = Fin 1" "limitWindowSeconds (self m0) = Fin (1 / 262144)"
    "limitSent (self m0) = Fin 0" "limitLastUpdate (self m0) = 0" "ticks m0 = 1"
    "limitNumDiscarded (self m0) = 0"
    by (simp_all add: m0_def SlackWebHook_def limit_options_def no_options_def Let_def c
        rnd_small_numerals sr example_log_def)
  have s1: "limitLambda (self m1) = Fin (7023731261665581 / 562949953421312)"
    "limitPerSecond (self m1) = Fin 1" "limitWindowSeconds (self m1) = Fin (1 / 262144)"
    "limitSent (self m1) = Fin 1" "limitLastUpdate (self m1) = 0" "ticks m1 = 2"
    "limitNumDiscarded (self m1) = 0"
    by (simp_all add: m1_def incrementLimitSent_eq getLimitSentAtDate_def js_sub_def s0 c
        rnd_small_numerals)
  have s2: "limitLambda (self m2) = Fin (7023731261665581 / 562949953421312)"
    "limitPerSecond (self m2) = Fin 1" "limitWindowSeconds (self m2) = Fin (1 / 262144)"
    "limitSent (self m2) = Fin (68719738879 / 68719476736)" "limitLastUpdate (self m2) = 1000"
    "ticks m2 = 3" "limitNumDiscarded (self m2) = 0"
    by (simp_all add: m2_def incrementLimitSent_eq getLimitSentAtDate_def js_sub_def s1 c
        rnd_small_numerals sr example_exp_def)
  have s3: "limitLambda (self m3) = Fin (7023731261665581 / 562949953421312)"
    "limitPerSecond (self m3) = Fin 1" "limitWindowSeconds (self m3) = Fin (1 / 262144)"
    "limitSent (self m3) = Fin (262145 / 262144)" "limitLastUpdate (self m3) = 2000"
    "ticks m3 = 4" "limitNumDiscarded (self m3) = 0"
    by (simp_all add: m3_def incrementLimitSent_eq getLimitSentAtDate_def js_sub_def s2 c
        rnd_small_numerals sr example_exp_def)
  have p: "getLimitSentAtDate rt (self m3) 3000
      = Fin (4503599627370497 / 1180591620717411303424)"
    by (simp add: getLimitSentAtDate_def js_sub_def s3 c rnd_small_numerals sr
        example_exp_def)
  have b: "js_mul (limitPerSecond (self m3)) (limitWindowSeconds (self m3)) = Fin (1 / 262144)"
    by (simp add: s3 sr)
  have ex: "fst (isRateLimitExceeded rt m3)"
    by (simp add: isRateLimitExceeded_eq s3(6) c p b)
  show ?thesis
    unfolding Let_def rt_def [symmetric] m0_def [symmetric] m1_def [symmetric]
      m2_def [symmetric] m3_def [symmetric]
    using s0(1) b s3(5,6,7) c(5) p ex
    by (simp add: log_method_discard [OF ex])
qed


subsection \<open>The check and the bookkeeping\<close>

text \<open>
  C2. \<^verbatim>\<open>isRateLimitExceeded\<close> changes no field of the object and issues nothing. The score
  it projects is \<^verbatim>\<open>limitSent * Math.exp(-limitLambda * seconds)\<close>, computed in doubles, where
  \<open>seconds\<close> is the time from \<^verbatim>\<open>limitLastUpdate\<close> to the clock value read by this call,
  divided by 1000. Its answer is the comparison of that score with \<^verbatim>\<open>limitPerSecond *
  limitWindowSeconds\<close> by \<^verbatim>\<open>>\<close>: for finite numbers it is true exactly when the score is
  strictly above the budget, so a score equal to the budget is not exceeded. A second call
  decides again, from the next clock value.
\<close>

theorem C2_isRateLimitExceeded_strict:
  "self (snd (isRateLimitExceeded rt m)) = self m
   \<and> trace (snd (isRateLimitExceeded rt m)) = trace m
   \<and> getLimitSentAtDate rt (self m) (clock rt (ticks m))
       = js_mul (limitSent (self m))
           (js_exp (math_exp rt)
              (js_mul (js_neg (limitLambda (self m)))
                 (js_div (js_sub (Fin (of_int (clock rt (ticks m))))
                                 (Fin (of_int (limitLastUpdate (self m)))))
                         (Fin 1000))))
   \<and> fst (isRateLimitExceeded rt m)
       = js_gt (getLimitSentAtDate rt (self m) (clock rt (ticks m)))
               (js_mul (limitPerSecond (self m)) (limitWindowSeconds (self m)))
   \<and> (getLimitSentAtDate rt (self m) (clock rt (ticks m)) = Fin p
        \<and> js_mul (limitPerSecond (self m)) (limitWindowSeconds (self m)) = Fin b
      \<longrightarrow> fst (isRateLimitExceeded rt m) = (b < p))
   \<and> fst (isRateLimitExceeded rt (snd (isRateLimitExceeded rt m)))
       = js_gt (getLimitSentAtDate rt (self m) (clock rt (Suc (ticks m))))
               (js_mul (limitPerSecond (self m)) (limitWindowSeconds (self m)))"
  by (simp add: isRateLimitExceeded_eq getLimitSentAtDate_def)

theorem C2_isRateLimitExceeded_strict_witness:
  "(let rt = example_node (\<lambda>i. if i < 3 then 0 else 1000);
        m = incrementLimitSent rt (incrementLimitSent rt
              (SlackWebHook rt (Some (limit_options (Fin 1) (Fin 1))) 0 :: (nat, unit) machine))
    in limitSent (self m) = Fin 2
     \<and> getLimitSentAtDate rt (self m) (clock rt (ticks m)) = Fin 1
     \<and> js_mul (limitPerSecond (self m)) (limitWindowSeconds (self m)) = Fin 1
     \<and> \<not> fst (isRateLimitExceeded rt m))"
proof -
  define clk :: "nat \<Rightarrow> int" where "clk = (\<lambda>i. if i < 3 then 0 else 1000)"
  define rt where "rt = example_node clk"
  define m0 :: "(nat, unit) machine"
    where "m0 = SlackWebHook rt (Some (limit_options (Fin 1) (Fin 1))) 0"
  define m where "m = incrementLimitSent rt (incrementLimitSent rt m0)"
  have k: "clk 0 = 0" "clk (Suc 0) = 0" "clk (Suc (Suc 0)) = 0" "clk 3 = 1000"
    by (simp_all add: clk_def)
  note e = example_two_sends [OF k(1-3) m0_def [unfolded rt_def] m_def [unfolded rt_def]]
  have c: "clock rt i = clk i" "math_exp rt = example_exp" for i
    by (simp_all add: rt_def example_node_def)
  have n: "rnd (- (6243314768165359 / 9007199254740992))
      = Fin (- (6243314768165359 / 9007199254740992))"
    by (rule rnd_exact [where n = "- 1" and k = "- 6243314768165359"]; simp)
  have p: "getLimitSentAtDate rt (self m) (clock rt (ticks m)) = Fin 1"
    by (simp add: getLimitSentAtDate_def js_sub_def e c k rnd_small_numerals n example_exp_def)
  have b: "js_mul (limitPerSecond (self m)) (limitWindowSeconds (self m)) = Fin 1"
    by (simp add: e rnd_small_numerals)
  show ?thesis
    unfolding Let_def clk_def [symmetric] rt_def [symmetric] m0_def [symmetric]
      m_def [symmetric]
    using C2_isRateLimitExceeded_strict [of rt m 1 1] p b e(7)
    by simp
qed

text \<open>
  C3. \<^verbatim>\<open>incrementLimitSent\<close> sets \<^verbatim>\<open>limitSent\<close> to the score projected to the clock value it
  reads, plus one, and \<^verbatim>\<open>limitLastUpdate\<close> to that clock value. What a call of \<^verbatim>\<open>log\<close> adds
  to the trace is fixed by the state and by whether the payload of the message can be
  built: nothing when the limit is exceeded; otherwise the request for the message
  followed by one run of \<^verbatim>\<open>incrementLimitSent\<close>, preceded, when messages have been
  discarded, by the request for the discard notice and its own run of
  \<^verbatim>\<open>incrementLimitSent\<close>; and when building the payload throws, the pair for the message is
  missing. So every request issued is followed by exactly one run of
  \<^verbatim>\<open>incrementLimitSent\<close>, and there is no run without a request.
\<close>

theorem C3_incrementLimitSent_per_request:
  "self (incrementLimitSent rt m)
     = (self m)\<lparr>limitSent := js_add (getLimitSentAtDate rt (self m) (clock rt (ticks m))) (Fin 1),
                limitLastUpdate := clock rt (ticks m)\<rparr>
   \<and> trace (incrementLimitSent rt m) = trace m @ [LimitSentIncremented]
   \<and> (\<exists>evs. trace (snd (log_method rt lvl msg meta callback m)) = trace m @ evs
         \<and> (fst (isRateLimitExceeded rt m) \<longrightarrow> evs = [])
         \<and> (\<not> fst (isRateLimitExceeded rt m) \<and> limitNumDiscarded (self m) = 0 \<longrightarrow>
              (case sendSlackLog_payload rt (self m) lvl msg meta of
                 Inl e \<Rightarrow> evs = []
               | Inr data \<Rightarrow>
                   evs = [HttpsRequest (https_request (self m) data callback),
                          LimitSentIncremented]))
         \<and> (\<not> fst (isRateLimitExceeded rt m) \<and> 0 < limitNumDiscarded (self m) \<longrightarrow>
              (\<exists>notice. on_response notice = Noop \<and>
                 (case sendSlackLog_payload rt (self m) lvl msg meta of
                    Inl e \<Rightarrow> evs = [HttpsRequest notice, LimitSentIncremented]
                  | Inr data \<Rightarrow>
                      evs = [HttpsRequest notice, LimitSentIncremented,
                             HttpsRequest (https_request (self m) data callback),
                             LimitSentIncremented]))))"
proof -
  have "\<exists>evs. trace (snd (log_method rt lvl msg meta callback m)) = trace m @ evs
         \<and> (fst (isRateLimitExceeded rt m) \<longrightarrow> evs = [])
         \<and> (\<not> fst (isRateLimitExceeded rt m) \<and> limitNumDiscarded (self m) = 0 \<longrightarrow>
              (case sendSlackLog_payload rt (self m) lvl msg meta of
                 Inl e \<Rightarrow> evs = []
               | Inr data \<Rightarrow>
                   evs = [HttpsRequest (https_request (self m) data callback),
                          LimitSentIncremented]))
         \<and> (\<not> fst (isRateLimitExceeded rt m) \<and> 0 < limitNumDiscarded (self m) \<longrightarrow>
              (\<exists>notice. on_response notice = Noop \<and>
                 (case sendSlackLog_payload rt (self m) lvl msg meta of
                    Inl e \<Rightarrow> evs = [HttpsRequest notice, LimitSentIncremented]
                  | Inr data \<Rightarrow>
                      evs = [HttpsRequest notice, LimitSentIncremented,
                             HttpsRequest (https_request (self m) data callback),
                             LimitSentIncremented])))"
  proof (cases "fst (isRateLimitExceeded rt m)")
    case True
    then show ?thesis by (simp add: log_method_discard)
  next
    case False
    show ?thesis
    proof (cases "limitNumDiscarded (self m) = 0")
      case True
      show ?thesis
        using False True by (auto simp: log_method_send [OF False True] split: sum.splits)
    next
      case nz: False
      then have pos: "0 < limitNumDiscarded (self m)" by simp
      show ?thesis
      proof (cases "sendSlackLog_payload rt (self m) lvl msg meta")
        case (Inl e)
        show ?thesis
          using False pos unfolding log_method_flush [OF False pos] Let_def Inl
          by (simp add: https_request_def)
      next
        case (Inr data)
        show ?thesis
          using False pos unfolding log_method_flush [OF False pos] Let_def Inr
          by (simp add: https_request_def)
      qed
    qed
  qed
  then show ?thesis by (simp add: incrementLimitSent_eq)
qed


theorem C3_incrementLimitSent_per_request_witness:
  "(let rt = example_node (\<lambda>i. 0);
        m0 = SlackWebHook rt (Some (limit_options (Fin 1) (Fin 1))) 0 :: (nat, unit) machine;
        m2 = incrementLimitSent rt (incrementLimitSent rt m0)
    in \<not> fst (isRateLimitExceeded rt m0)
     \<and> trace (snd (log_method rt ''info'' ''hello'' (Obj [Prop ''attempt'' True 3]) (Caller ()) m0))
         = [HttpsRequest
              \<lparr>req_host = None, req_port = PortNumber 443, req_path = None,
               req_method = ''POST'', req_content_type = ''application/json'',
               req_data = \<lparr>p_text = ''hello'', p_channel = [], p_username = [],
                            icon_emoji = [], icon_url = [], unfurl_links = False,
                            attachments = Some [\<lparr>fallback = ''3'', a_text = ''attempt: 3'',
                                                 color = ''good''\<rparr>]\<rparr>,
               on_response = Caller ()\<rparr>,
            LimitSentIncremented]
     \<and> fst (isRateLimitExceeded rt m2)
     \<and> trace (snd (log_method rt ''info'' ''hello'' (Obj [Prop ''attempt'' True 3]) (Caller ()) m2))
         = trace m2)"
proof -
  define rt where "rt = example_node (\<lambda>i. 0)"
  define m0 :: "(nat, unit) machine"
    where "m0 = SlackWebHook rt (Some (limit_options (Fin 1) (Fin 1))) 0"
  define m2 where "m2 = incrementLimitSent rt (incrementLimitSent rt m0)"
  note e0 = example_limiter [OF m0_def [unfolded rt_def]]
  note e = example_two_sends [OF _ _ _ m0_def [unfolded rt_def] m2_def [unfolded rt_def]]
  have c: "clock rt i = 0" "math_exp rt = example_exp" "inspect rt = (\<lambda>v. Inr (string_of_nat v))"
    for i by (simp_all add: rt_def example_node_def)
  have ok: "\<not> fst (isRateLimitExceeded rt m0)"
    by (simp add: isRateLimitExceeded_eq getLimitSentAtDate_def js_sub_def e0 c
        rnd_small_numerals)
  have ex: "fst (isRateLimitExceeded rt m2)"
    by (simp add: isRateLimitExceeded_eq getLimitSentAtDate_def js_sub_def e c
        rnd_small_numerals)
  have p: "sendSlackLog_payload rt (self m0) ''info'' ''hello'' (Obj [Prop ''attempt'' True 3])
      = Inr \<lparr>p_text = ''hello'', p_channel = [], p_username = [],
              icon_emoji = [], icon_url = [], unfurl_links = False,
              attachments = Some [\<lparr>fallback = ''3'', a_text = ''attempt: 3'',
                                   color = ''good''\<rparr>]\<rparr>"
    using sendSlackLog_payload_ordinary [where rt = rt and ren = string_of_nat
        and ps = "[Prop ''attempt'' True 3]" and s = "self m0" and lvl = "''info''"
        and msg = "''hello''"]
    by (simp add: c e0 color_of_def string_of_nat_3)
  have d0: "limitNumDiscarded (self m0) = 0" by (simp add: e0)
  have h: "host (self m0) = None" "port (self m0) = PortNumber 443" "path (self m0) = None"
    "trace m0 = []"
    by (simp_all add: e0)
  have t1: "trace (snd (log_method rt ''info'' ''hello'' (Obj [Prop ''attempt'' True 3])
        (Caller ()) m0))
      = trace m0 @ [HttpsRequest (https_request (self m0)
            \<lparr>p_text = ''hello'', p_channel = [], p_username = [],
              icon_emoji = [], icon_url = [], unfurl_links = False,
              attachments = Some [\<lparr>fallback = ''3'', a_text = ''attempt: 3'',
                                   color = ''good''\<rparr>]\<rparr> (Caller ())),
          LimitSentIncremented]"
    using C3_incrementLimitSent_per_request [of rt m0 "''info''" "''hello''"
        "Obj [Prop ''attempt'' True 3]" "Caller ()"] ok d0
    unfolding p by auto
  have t2: "trace (snd (log_method rt ''info'' ''hello'' (Obj [Prop ''attempt'' True 3])
        (Caller ()) m2)) = trace m2"
    using C3_incrementLimitSent_per_request [of rt m2 "''info''" "''hello''"
        "Obj [Prop ''attempt'' True 3]" "Caller ()"] ex
    by auto
  show ?thesis
    unfolding Let_def rt_def [symmetric] m0_def [symmetric] m2_def [symmetric]
    using ok ex t1 t2 by (simp add: https_request_def h)
qed

subsection \<open>Discarded messages and the discard notice\<close>

lemma three_discards:
  fixes m :: "('v, 'c) machine"
  assumes d0: "limitNumDiscarded (self m) = 0"
    and e0: "fst (isRateLimitExceeded rt m)"
    and m1: "m1 = snd (log_method rt l1 g1 x1 c1 m)" and e1: "fst (isRateLimitExceeded rt m1)"
    and m2: "m2 = snd (log_method rt l2 g2 x2 c2 m1)" and e2: "fst (isRateLimitExceeded rt m2)"
    and m3: "m3 = snd (log_method rt l3 g3 x3 c3 m2)"
  shows "m3 = m\<lparr>self := (self m)\<lparr>limitNumDiscarded := 3\<rparr>, ticks := ticks m + 3\<rparr>"
proof -
  have s1: "m1 = m\<lparr>self := (self m)\<lparr>limitNumDiscarded := 1\<rparr>, ticks := ticks m + 1\<rparr>"
    using d0 by (simp add: m1 log_method_discard [OF e0])
  have "m2 = m1\<lparr>self := (self m1)\<lparr>limitNumDiscarded := limitNumDiscarded (self m1) + 1\<rparr>,
                ticks := Suc (ticks m1)\<rparr>"
    by (simp only: m2 log_method_discard [OF e1] snd_conv)
  then have s2: "m2 = m\<lparr>self := (self m)\<lparr>limitNumDiscarded := 2\<rparr>, ticks := ticks m + 2\<rparr>"
    by (simp add: s1)
  have "m3 = m2\<lparr>self := (self m2)\<lparr>limitNumDiscarded := limitNumDiscarded (self m2) + 1\<rparr>,
                ticks := Suc (ticks m2)\<rparr>"
    by (simp only: m3 log_method_discard [OF e2] snd_conv)
  then show ?thesis
    by (simp add: s2)
qed

text \<open>
  C4. No message is counted as discarded yet; three calls of \<^verbatim>\<open>log\<close> are made while
  \<^verbatim>\<open>isRateLimitExceeded\<close> answers true, and then a fourth, for a message whose payload can
  be built, while it answers false. Then the four calls together issue exactly two
  requests, both in the fourth call, which returns normally. The first carries the payload
  built for level \<^verbatim>\<open>warn\<close>, message \<^verbatim>\<open>winston-slack-webhook discarded 3 messages\<close> and empty
  metadata (so it has no attachments, and its text is that message unless a formatter
  rewrites it), with \<^verbatim>\<open>noop\<close> as its callback; the second carries the payload of the fourth
  message, with the caller's callback. Each request is followed at once by one run of
  \<^verbatim>\<open>incrementLimitSent\<close>, before and whatever the outcome of the request. At the end
  \<^verbatim>\<open>limitNumDiscarded\<close> is 0, and \<^verbatim>\<open>limitSent\<close> has been decayed and incremented twice.
\<close>

theorem C4_discard_notice_then_message:
  fixes m :: "('v, 'c) machine"
  assumes d0: "limitNumDiscarded (self m) = 0"
    and e0: "fst (isRateLimitExceeded rt m)"
    and m1: "m1 = snd (log_method rt l1 g1 x1 c1 m)" and e1: "fst (isRateLimitExceeded rt m1)"
    and m2: "m2 = snd (log_method rt l2 g2 x2 c2 m1)" and e2: "fst (isRateLimitExceeded rt m2)"
    and m3: "m3 = snd (log_method rt l3 g3 x3 c3 m2)" and e3: "\<not> fst (isRateLimitExceeded rt m3)"
    and p4: "sendSlackLog_payload rt (self m) l4 g4 x4 = Inr data"
  shows "trace m3 = trace m
     \<and> fst (log_method rt l4 g4 x4 c4 m3) = Returned
     \<and> (\<exists>notice.
           sendSlackLog_payload rt (self m) ''warn''
               ''winston-slack-webhook discarded 3 messages'' (Obj []) = Inr notice
         \<and> attachments notice = None
         \<and> (formatter (self m) = None
              \<longrightarrow> p_text notice = ''winston-slack-webhook discarded 3 messages'')
         \<and> trace (snd (log_method rt l4 g4 x4 c4 m3))
             = trace m @ [HttpsRequest (https_request (self m) notice Noop),
                          LimitSentIncremented,
                          HttpsRequest (https_request (self m) data c4),
                          LimitSentIncremented])
     \<and> limitNumDiscarded (self (snd (log_method rt l4 g4 x4 c4 m3))) = 0
     \<and> limitLastUpdate (self (snd (log_method rt l4 g4 x4 c4 m3)))
         = clock rt (ticks m + 5)
     \<and> limitSent (self (snd (log_method rt l4 g4 x4 c4 m3)))
         = js_add (getLimitSentAtDate rt
                     ((self m)\<lparr>limitSent :=
                          js_add (getLimitSentAtDate rt (self m) (clock rt (ticks m + 4))) (Fin 1),
                        limitLastUpdate := clock rt (ticks m + 4)\<rparr>)
                     (clock rt (ticks m + 5)))
                  (Fin 1)"
proof -
  note m3' = three_discards [OF d0 e0 m1 e1 m2 e2 m3]
  have pos: "0 < limitNumDiscarded (self m3)" by (simp add: m3')
  have f: "self m3 = (self m)\<lparr>limitNumDiscarded := 3\<rparr>" "ticks m3 = ticks m + 3"
    "trace m3 = trace m"
    by (simp_all add: m3')
  have t: "Suc (ticks m + 3) = ticks m + 4" "Suc (Suc (ticks m + 3)) = ticks m + 5" by simp_all
  show ?thesis
    unfolding log_method_flush [OF e3 pos] f t sendSlackLog_payload_limiter
      https_request_limiter sendSlackLog_payload_no_own [OF filter.simps(1)] Let_def p4
    by (simp add: string_of_nat_3 getLimitSentAtDate_def add.commute cong: option.case_cong)
qed


theorem C4_discard_notice_then_message_witness:
  "(let rt = example_node (\<lambda>i. if i < 6 then 0 else 1000);
        m = incrementLimitSent rt (incrementLimitSent rt
              (SlackWebHook rt (Some (limit_options (Fin 1) (Fin 1))) 0 :: (nat, unit) machine));
        m1 = snd (log_method rt ''info'' ''first'' (Obj []) (Caller ()) m);
        m2 = snd (log_method rt ''info'' ''second'' (Obj []) (Caller ()) m1);
        m3 = snd (log_method rt ''info'' ''third'' (Obj []) (Caller ()) m2)
    in fst (isRateLimitExceeded rt m) \<and> fst (isRateLimitExceeded rt m1)
     \<and> fst (isRateLimitExceeded rt m2) \<and> \<not> fst (isRateLimitExceeded rt m3)
     \<and> trace (snd (log_method rt ''info'' ''fourth'' (Obj [Prop ''attempt'' True 3])
                  (Caller ()) m3))
         = trace m @
           [HttpsRequest
              \<lparr>req_host = None, req_port = PortNumber 443, req_path = None,
               req_method = ''POST'', req_content_type = ''application/json'',
               req_data = \<lparr>p_text = ''winston-slack-webhook discarded 3 messages'',
                            p_channel = [], p_username = [], icon_emoji = [], icon_url = [],
                            unfurl_links = False, attachments = None\<rparr>,
               on_response = Noop\<rparr>,
            LimitSentIncremented,
            HttpsRequest
              \<lparr>req_host = None, req_port = PortNumber 443, req_path = None,
               req_method = ''POST'', req_content_type = ''application/json'',
               req_data = \<lparr>p_text = ''fourth'', p_channel = [], p_username = [],
                            icon_emoji = [], icon_url = [], unfurl_links = False,
                            attachments = Some [\<lparr>fallback = ''3'', a_text = ''attempt: 3'',
                                                 color = ''good''\<rparr>]\<rparr>,
               on_response = Caller ()\<rparr>,
            LimitSentIncremented]
     \<and> limitNumDiscarded (self (snd (log_method rt ''info'' ''fourth''
           (Obj [Prop ''attempt'' True 3]) (Caller ()) m3))) = 0)"
proof -
  define clk :: "nat \<Rightarrow> int" where "clk = (\<lambda>i. if i < 6 then 0 else 1000)"
  define rt where "rt = example_node clk"
  define m0 :: "(nat, unit) machine"
    where "m0 = SlackWebHook rt (Some (limit_options (Fin 1) (Fin 1))) 0"
  define m where "m = incrementLimitSent rt (incrementLimitSent rt m0)"
  define m1 where "m1 = snd (log_method rt ''info'' ''first'' (Obj []) (Caller ()) m)"
  define m2 where "m2 = snd (log_method rt ''info'' ''second'' (Obj []) (Caller ()) m1)"
  define m3 where "m3 = snd (log_method rt ''info'' ''third'' (Obj []) (Caller ()) m2)"
  have c: "clock rt i = clk i" "math_exp rt = example_exp"
    "inspect rt = (\<lambda>v. Inr (string_of_nat v))" for i
    by (simp_all add: rt_def example_node_def)
  have k: "clk 0 = 0" "clk (Suc 0) = 0" "clk (Suc (Suc 0)) = 0" "clk 3 = 0" "clk 4 = 0"
    "clk 5 = 0" "clk 6 = 1000"
    by (simp_all add: clk_def)
  note e = example_two_sends [OF k(1-3) m0_def [unfolded rt_def] m_def [unfolded rt_def]]
  have n: "rnd (- (6243314768165359 / 9007199254740992))
      = Fin (- (6243314768165359 / 9007199254740992))"
    by (rule rnd_exact [where n = "- 1" and k = "- 6243314768165359"]; simp)
  have e0: "fst (isRateLimitExceeded rt m)"
    by (simp add: isRateLimitExceeded_eq getLimitSentAtDate_def js_sub_def e c k
        rnd_small_numerals)
  have s1: "m1 = m\<lparr>self := (self m)\<lparr>limitNumDiscarded := 1\<rparr>, ticks := 4\<rparr>"
    by (simp add: m1_def log_method_discard [OF e0] e)
  have e1: "fst (isRateLimitExceeded rt m1)"
    by (simp add: s1 isRateLimitExceeded_eq getLimitSentAtDate_def js_sub_def e c k
        rnd_small_numerals)
  have "m2 = m1\<lparr>self := (self m1)\<lparr>limitNumDiscarded := limitNumDiscarded (self m1) + 1\<rparr>,
                ticks := Suc (ticks m1)\<rparr>"
    by (simp only: m2_def log_method_discard [OF e1] snd_conv)
  then have s2: "m2 = m\<lparr>self := (self m)\<lparr>limitNumDiscarded := 2\<rparr>, ticks := 5\<rparr>"
    by (simp add: s1)
  have e2: "fst (isRateLimitExceeded rt m2)"
    by (simp add: s2 isRateLimitExceeded_eq getLimitSentAtDate_def js_sub_def e c k
        rnd_small_numerals)
  have "m3 = m2\<lparr>self := (self m2)\<lparr>limitNumDiscarded := limitNumDiscarded (self m2) + 1\<rparr>,
                ticks := Suc (ticks m2)\<rparr>"
    by (simp only: m3_def log_method_discard [OF e2] snd_conv)
  then have s3: "m3 = m\<lparr>self := (self m)\<lparr>limitNumDiscarded := 3\<rparr>, ticks := 6\<rparr>"
    by (simp add: s2)
  have e3: "\<not> fst (isRateLimitExceeded rt m3)"
    by (simp add: s3 isRateLimitExceeded_eq getLimitSentAtDate_def js_sub_def e c k
        rnd_small_numerals n example_exp_def)
  have h: "host (self m) = None" "port (self m) = PortNumber 443" "path (self m) = None"
    "channel (self m) = []" "username (self m) = []" "iconEmoji (self m) = []"
    "iconUrl (self m) = []" "unfurlLinks (self m) = False"
    by (simp_all add: m_def incrementLimitSent_eq example_limiter [OF m0_def [unfolded rt_def]])
  have p: "sendSlackLog_payload rt (self m) ''info'' ''fourth'' (Obj [Prop ''attempt'' True 3])
      = Inr \<lparr>p_text = ''fourth'', p_channel = [], p_username = [],
              icon_emoji = [], icon_url = [], unfurl_links = False,
              attachments = Some [\<lparr>fallback = ''3'', a_text = ''attempt: 3'',
                                   color = ''good''\<rparr>]\<rparr>"
    using sendSlackLog_payload_ordinary [where rt = rt and ren = string_of_nat
        and ps = "[Prop ''attempt'' True 3]" and s = "self m" and lvl = "''info''"
        and msg = "''fourth''"]
    by (simp add: c e(9) h color_of_def string_of_nat_3)
  have "trace (snd (log_method rt ''info'' ''fourth'' (Obj [Prop ''attempt'' True 3])
                  (Caller ()) m3))
         = trace m @
           [HttpsRequest
              \<lparr>req_host = None, req_port = PortNumber 443, req_path = None,
               req_method = ''POST'', req_content_type = ''application/json'',
               req_data = \<lparr>p_text = ''winston-slack-webhook discarded 3 messages'',
                            p_channel = [], p_username = [], icon_emoji = [], icon_url = [],
                            unfurl_links = False, attachments = None\<rparr>,
               on_response = Noop\<rparr>,
            LimitSentIncremented,
            HttpsRequest
              \<lparr>req_host = None, req_port = PortNumber 443, req_path = None,
               req_method = ''POST'', req_content_type = ''application/json'',
               req_data = \<lparr>p_text = ''fourth'', p_channel = [], p_username = [],
                            icon_emoji = [], icon_url = [], unfurl_links = False,
                            attachments = Some [\<lparr>fallback = ''3'', a_text = ''attempt: 3'',
                                                 color = ''good''\<rparr>]\<rparr>,
               on_response = Caller ()\<rparr>,
            LimitSentIncremented]
     \<and> limitNumDiscarded (self (snd (log_method rt ''info'' ''fourth''
           (Obj [Prop ''attempt'' True 3]) (Caller ()) m3))) = 0"
    using C4_discard_notice_then_message [OF e(6) e0 m1_def e1 m2_def e2 m3_def e3 p,
        of "Caller ()"]
    by (auto simp: sendSlackLog_payload_no_own https_request_def e(9) h)
  then show ?thesis
    unfolding Let_def clk_def [symmetric] rt_def [symmetric] m0_def [symmetric]
      m_def [symmetric] m1_def [symmetric] m2_def [symmetric] m3_def [symmetric]
    using e0 e1 e2 e3 by simp
qed

subsection \<open>Payloads and metadata\<close>

text \<open>
  C9 fails on the code for metadata with a property named \<^verbatim>\<open>hasOwnProperty\<close> and for
  metadata without the prototype of ordinary objects. For \<^verbatim>\<open>{attempt: 3}\<close> at level
  \<^verbatim>\<open>error\<close> the payload has the one attachment the claim describes. For
  \<^verbatim>\<open>{hasOwnProperty: 3}\<close>, and for an object with the one property \<^verbatim>\<open>attempt: 3\<close> on which no
  \<^verbatim>\<open>hasOwnProperty\<close> can be found, line 91 calls something that is not a function: no payload
  is built, \<^verbatim>\<open>log\<close> ends with a \<^verbatim>\<open>TypeError\<close>, and nothing is sent.
\<close>

theorem C9_hasOwnProperty_shadowed:
  "(let rt = example_node (\<lambda>i. 0);
        m0 = SlackWebHook rt None 0 :: (nat, unit) machine
    in sendSlackLog_payload rt (self m0) ''error'' ''boom'' (Obj [Prop ''attempt'' True 3])
         = Inr \<lparr>p_text = ''boom'', p_channel = [], p_username = [], icon_emoji = [],
                 icon_url = [], unfurl_links = False,
                 attachments = Some [\<lparr>fallback = ''3'', a_text = ''attempt: 3'',
                                      color = ''danger''\<rparr>]\<rparr>
     \<and> object_keys (Obj [Prop ''hasOwnProperty'' True (3::nat)]) = Inr [''hasOwnProperty'']
     \<and> sendSlackLog_payload rt (self m0) ''error'' ''boom'' (Obj [Prop ''hasOwnProperty'' True 3])
         = Inl TypeError
     \<and> sendSlackLog_payload rt (self m0) ''error'' ''boom''
           (Object [Prop ''attempt'' True 3] Missing)
         = Inl TypeError
     \<and> \<not> fst (isRateLimitExceeded rt m0)
     \<and> fst (log_method rt ''error'' ''boom'' (Obj [Prop ''hasOwnProperty'' True 3])
               (Caller ()) m0) = Threw TypeError
     \<and> trace (snd (log_method rt ''error'' ''boom'' (Obj [Prop ''hasOwnProperty'' True 3])
                      (Caller ()) m0)) = [])"
proof -
  define rt where "rt = example_node (\<lambda>i. 0)"
  define m0 :: "(nat, unit) machine" where "m0 = SlackWebHook rt None 0"
  note e = example_default [OF m0_def [unfolded rt_def]]
  have c: "inspect rt = (\<lambda>v. Inr (string_of_nat v))" "as_function rt = (\<lambda>v. None)"
    by (simp_all add: rt_def example_node_def)
  have f: "formatter (self m0) = None" "limitNumDiscarded (self m0) = 0" "trace m0 = []"
    "channel (self m0) = []" "username (self m0) = []" "iconEmoji (self m0) = []"
    "iconUrl (self m0) = []" "unfurlLinks (self m0) = False" "limitLambda (self m0) = NaN"
    by (simp_all add: e)
  have ok: "\<not> fst (isRateLimitExceeded rt m0)"
    by (simp add: isRateLimitExceeded_eq getLimitSentAtDate_NaN f)
  have p1: "sendSlackLog_payload rt (self m0) ''error'' ''boom'' (Obj [Prop ''attempt'' True 3])
         = Inr \<lparr>p_text = ''boom'', p_channel = [], p_username = [], icon_emoji = [],
                 icon_url = [], unfurl_links = False,
                 attachments = Some [\<lparr>fallback = ''3'', a_text = ''attempt: 3'',
                                      color = ''danger''\<rparr>]\<rparr>"
    by (simp add: sendSlackLog_payload_def hasOwnProperty_of_def c f color_of_def
        string_of_nat_3)
  have p2: "sendSlackLog_payload rt (self m0) ''error'' ''boom''
        (Obj [Prop ''hasOwnProperty'' True 3]) = Inl TypeError"
    by (simp add: sendSlackLog_payload_def hasOwnProperty_of_def c f)
  have p3: "sendSlackLog_payload rt (self m0) ''error'' ''boom''
        (Object [Prop ''attempt'' True 3] Missing) = Inl TypeError"
    by (simp add: sendSlackLog_payload_def hasOwnProperty_of_def c f)
  show ?thesis
    unfolding Let_def rt_def [symmetric] m0_def [symmetric]
    using ok p1 p3 by (simp add: p2 log_method_send [OF ok f(2)] f(3))
qed


end
